theory Spec2Isabelle
  imports Main "HOL-Library.Word" "HOL-Library.Mapping" "HOL-Library.Char_ord"
    "HOL-Library.List_Lexorder"
begin

unbundle bit_operations_syntax

section \<open>Go runtime values\<close>

text \<open>
  A Go call either returns or panics (nil dereference, index out of range, explicit
  \<^verbatim>\<open>panic\<close>).  Every function of the model that can panic returns an \<open>outcome\<close>.
\<close>

datatype 'a outcome = Panics | Returns 'a

fun obind :: "'a outcome \<Rightarrow> ('a \<Rightarrow> 'b outcome) \<Rightarrow> 'b outcome" where
  "obind Panics f = Panics"
| "obind (Returns x) f = f x"

type_synonym u64 = "64 word"

section \<open>The Go standard library functions the core calls\<close>

subsection \<open>\<^verbatim>\<open>strings.Split\<close> with a one-byte separator\<close>

fun strings_Split :: "string \<Rightarrow> char \<Rightarrow> string list" where
  "strings_Split [] sep = [[]]"
| "strings_Split (c # cs) sep =
     (if c = sep then [] # strings_Split cs sep
      else (case strings_Split cs sep of
              [] \<Rightarrow> [[c]]
            | x # xs \<Rightarrow> (c # x) # xs))"

subsection \<open>Package \<^verbatim>\<open>path\<close>\<close>

definition slash :: char where
  "slash = CHR ''/''"

definition dot :: char where
  "dot = CHR ''.''"

definition path_IsAbs :: "string \<Rightarrow> bool" where
  "path_IsAbs p = (case p of [] \<Rightarrow> False | c # _ \<Rightarrow> c = slash)"

text \<open>
  The backtracking of \<^verbatim>\<open>path.Clean\<close> at a \<^verbatim>\<open>..\<close> element:
  \<^verbatim>\<open>out.w--; for out.w > dotdot && out.index(out.w) != '/' { out.w-- }\<close>.
  \<open>backtrack out dotdot w\<close> runs the loop from write index \<open>w\<close> (already decremented).
\<close>

fun backtrack :: "string \<Rightarrow> nat \<Rightarrow> nat \<Rightarrow> nat" where
  "backtrack out dotdot 0 = 0"
| "backtrack out dotdot (Suc w) =
     (if Suc w > dotdot \<and> out ! Suc w \<noteq> slash then backtrack out dotdot w else Suc w)"

text \<open>
  The main loop of \<^verbatim>\<open>path.Clean\<close>.  The first argument is \<^verbatim>\<open>rooted\<close>, the second the
  unread rest of the path (\<^verbatim>\<open>path[r:]\<close>), the third the bytes written so far
  (\<^verbatim>\<open>out\<close>, with \<^verbatim>\<open>out.w\<close> its length), the fourth \<^verbatim>\<open>dotdot\<close>.
\<close>

function clean_loop :: "bool \<Rightarrow> string \<Rightarrow> string \<Rightarrow> nat \<Rightarrow> string" where
  "clean_loop rooted [] out dotdot = out"
| "clean_loop rooted (c # cs) out dotdot =
     (if c = slash then clean_loop rooted cs out dotdot
      else if c = dot \<and> (cs = [] \<or> hd cs = slash) then clean_loop rooted cs out dotdot
      else if c = dot \<and> hd cs = dot \<and> (tl cs = [] \<or> hd (tl cs) = slash) then
        (if length out > dotdot then
           clean_loop rooted (tl cs) (take (backtrack out dotdot (length out - 1)) out) dotdot
         else if \<not> rooted then
           (let out' = (if out \<noteq> [] then out @ [slash] else out) @ [dot, dot]
            in clean_loop rooted (tl cs) out' (length out'))
         else clean_loop rooted (tl cs) out dotdot)
      else
        (let out' = (if rooted \<and> length out \<noteq> 1 \<or> \<not> rooted \<and> length out \<noteq> 0
                     then out @ [slash] else out)
         in clean_loop rooted (dropWhile (\<lambda>x. x \<noteq> slash) cs)
              (out' @ c # takeWhile (\<lambda>x. x \<noteq> slash) cs) dotdot))"
  by pat_completeness auto
termination
proof (relation "measure (\<lambda>(rooted, rest, out, dotdot). length rest)")
  show "wf (measure (\<lambda>(rooted, rest, out, dotdot). length rest))"
    by simp
next
  fix rooted :: bool and c :: char and cs out :: string and dotdot :: nat and out' :: string
  show "((rooted, dropWhile (\<lambda>x. x \<noteq> slash) cs, out' @ c # takeWhile (\<lambda>x. x \<noteq> slash) cs, dotdot),
         (rooted, c # cs, out, dotdot)) \<in> measure (\<lambda>(rooted, rest, out, dotdot). length rest)"
    by (simp add: length_dropWhile_le le_imp_less_Suc)
qed (auto simp: less_Suc_eq_le)

definition path_Clean :: "string \<Rightarrow> string" where
  "path_Clean p =
     (if p = [] then [dot]
      else (let rooted = (hd p = slash);
                out = (if rooted then clean_loop True (tl p) [slash] 1
                       else clean_loop False p [] 0)
            in if out = [] then [dot] else out))"

text \<open>\<^verbatim>\<open>strings.LastIndex(path, "/") + 1\<close>: the length of the prefix up to the last slash.\<close>

fun after_last_slash :: "string \<Rightarrow> nat" where
  "after_last_slash [] = 0"
| "after_last_slash (c # cs) =
     (if slash \<in> set cs then Suc (after_last_slash cs)
      else if c = slash then 1 else 0)"

definition path_Split :: "string \<Rightarrow> string \<times> string" where
  "path_Split p = (let i = after_last_slash p in (take i p, drop i p))"

definition path_Dir :: "string \<Rightarrow> string" where
  "path_Dir p = path_Clean (fst (path_Split p))"

text \<open>Stripping the trailing slashes, the first loop of \<^verbatim>\<open>path.Base\<close>.\<close>

definition strip_trailing_slashes :: "string \<Rightarrow> string" where
  "strip_trailing_slashes p = rev (dropWhile (\<lambda>x. x = slash) (rev p))"

definition path_Base :: "string \<Rightarrow> string" where
  "path_Base p =
     (if p = [] then [dot]
      else (let p1 = strip_trailing_slashes p;
                p2 = (if slash \<in> set p1 then drop (after_last_slash p1) p1 else p1)
            in if p2 = [] then [slash] else p2))"

text \<open>\<^verbatim>\<open>path.Join\<close>: leading empty elements are dropped, the rest joined by slashes and cleaned.\<close>

fun join_slash :: "string list \<Rightarrow> string" where
  "join_slash [] = []"
| "join_slash [e] = e"
| "join_slash (e # es) = e @ slash # join_slash es"

fun path_Join :: "string list \<Rightarrow> string" where
  "path_Join [] = []"
| "path_Join (e # es) = (if e \<noteq> [] then path_Clean (join_slash (e # es)) else path_Join es)"


subsection \<open>\<^verbatim>\<open>fmt\<close>: what the verb \<^verbatim>\<open>%v\<close> prints\<close>

definition fmt_bool :: "bool \<Rightarrow> string" where
  "fmt_bool b = (if b then ''true'' else ''false'')"

definition digit_char :: "nat \<Rightarrow> char" where
  "digit_char d = char_of (48 + d)"

fun fmt_nat :: "nat \<Rightarrow> string" where
  "fmt_nat n = (if n < 10 then [digit_char n] else fmt_nat (n div 10) @ [digit_char (n mod 10)])"

declare fmt_nat.simps [simp del]

text \<open>A \<^verbatim>\<open>uint64\<close> and an \<^verbatim>\<open>int\<close> (64 bits, two's complement) in decimal.\<close>

definition fmt_u64 :: "u64 \<Rightarrow> string" where
  "fmt_u64 w = fmt_nat (unat w)"

definition fmt_int :: "u64 \<Rightarrow> string" where
  "fmt_int w = (if sint w < 0 then CHR ''-'' # fmt_nat (nat (- sint w)) else fmt_nat (nat (sint w)))"

text \<open>\<^verbatim>\<open>strings.Join\<close>.\<close>

fun strings_Join :: "string list \<Rightarrow> string \<Rightarrow> string" where
  "strings_Join [] sep = []"
| "strings_Join [e] sep = e"
| "strings_Join (e # es) sep = e @ sep @ strings_Join es sep"

text \<open>A \<^verbatim>\<open>[]string\<close> prints as \<^verbatim>\<open>[a b c]\<close>.\<close>

definition fmt_strings :: "string list \<Rightarrow> string" where
  "fmt_strings xs = ''['' @ strings_Join xs '' '' @ '']''"

text \<open>
  A \<^verbatim>\<open>map[string]string\<close> is a finite map; \<^verbatim>\<open>fmt\<close> prints it as \<^verbatim>\<open>map[k1:v1 k2:v2]\<close>
  with the keys in increasing order.
\<close>

type_synonym strmap = "(string, string) mapping"

definition fmt_map :: "strmap \<Rightarrow> string" where
  "fmt_map m =
     ''map['' @ strings_Join (map (\<lambda>k. k @ '':'' @ the (Mapping.lookup m k)) (Mapping.ordered_keys m)) '' ''
      @ '']''"

text \<open>The digits of \<^verbatim>\<open>%x\<close> for a \<^verbatim>\<open>uint64\<close>.\<close>

definition hex_char :: "nat \<Rightarrow> char" where
  "hex_char d = (if d < 10 then char_of (48 + d) else char_of (87 + d))"

fun fmt_hex_nat :: "nat \<Rightarrow> string" where
  "fmt_hex_nat n = (if n < 16 then [hex_char n] else fmt_hex_nat (n div 16) @ [hex_char (n mod 16)])"

declare fmt_hex_nat.simps [simp del]

definition fmt_hex :: "u64 \<Rightarrow> string" where
  "fmt_hex w = fmt_hex_nat (unat w)"

subsection \<open>\<^verbatim>\<open>github.com/cespare/xxhash\<close>: the 64-bit xxHash with seed 0\<close>

definition prime64_1 :: u64 where "prime64_1 = 11400714785074694791"
definition prime64_2 :: u64 where "prime64_2 = 14029467366897019727"
definition prime64_3 :: u64 where "prime64_3 = 1609587929392839161"
definition prime64_4 :: u64 where "prime64_4 = 9650029242287828579"
definition prime64_5 :: u64 where "prime64_5 = 2870177450012600261"

definition rol64 :: "u64 \<Rightarrow> nat \<Rightarrow> u64" where
  "rol64 x r = push_bit r x OR drop_bit (64 - r) x"

text \<open>Reading bytes as a little-endian unsigned integer.\<close>

definition le_bytes :: "string \<Rightarrow> u64" where
  "le_bytes bs = foldr (\<lambda>c acc. of_char c + 256 * acc) bs 0"

definition xxh_round :: "u64 \<Rightarrow> u64 \<Rightarrow> u64" where
  "xxh_round acc inp = rol64 (acc + inp * prime64_2) 31 * prime64_1"

definition xxh_mergeRound :: "u64 \<Rightarrow> u64 \<Rightarrow> u64" where
  "xxh_mergeRound acc val = (acc XOR xxh_round 0 val) * prime64_1 + prime64_4"

function xxh_stripes :: "u64 \<Rightarrow> u64 \<Rightarrow> u64 \<Rightarrow> u64 \<Rightarrow> string \<Rightarrow> (u64 \<times> u64 \<times> u64 \<times> u64) \<times> string" where
  "xxh_stripes v1 v2 v3 v4 b =
     (if 32 \<le> length b then
        xxh_stripes (xxh_round v1 (le_bytes (take 8 b)))
                    (xxh_round v2 (le_bytes (take 8 (drop 8 b))))
                    (xxh_round v3 (le_bytes (take 8 (drop 16 b))))
                    (xxh_round v4 (le_bytes (take 8 (drop 24 b))))
                    (drop 32 b)
      else ((v1, v2, v3, v4), b))"
  by pat_completeness auto
termination
  by (relation "measure (\<lambda>(v1, v2, v3, v4, b). length b)") auto

declare xxh_stripes.simps [simp del]

function xxh_words :: "u64 \<Rightarrow> string \<Rightarrow> u64 \<times> string" where
  "xxh_words h b =
     (if 8 \<le> length b then
        xxh_words (rol64 (h XOR xxh_round 0 (le_bytes (take 8 b))) 27 * prime64_1 + prime64_4)
                  (drop 8 b)
      else (h, b))"
  by pat_completeness auto
termination
  by (relation "measure (\<lambda>(h, b). length b)") auto

declare xxh_words.simps [simp del]

definition xxh_half :: "u64 \<Rightarrow> string \<Rightarrow> u64 \<times> string" where
  "xxh_half h b =
     (if 4 \<le> length b then
        (rol64 (h XOR le_bytes (take 4 b) * prime64_1) 23 * prime64_2 + prime64_3, drop 4 b)
      else (h, b))"

fun xxh_bytes :: "u64 \<Rightarrow> string \<Rightarrow> u64" where
  "xxh_bytes h [] = h"
| "xxh_bytes h (c # cs) = xxh_bytes (rol64 (h XOR of_char c * prime64_5) 11 * prime64_1) cs"

definition xxh_avalanche :: "u64 \<Rightarrow> u64" where
  "xxh_avalanche h =
     (let h1 = h XOR drop_bit 33 h;
          h2 = h1 * prime64_2;
          h3 = h2 XOR drop_bit 29 h2;
          h4 = h3 * prime64_3
      in h4 XOR drop_bit 32 h4)"

definition Sum64 :: "string \<Rightarrow> u64" where
  "Sum64 b =
     (let n = length b;
          (h0, rest) =
            (if 32 \<le> n then
               (case xxh_stripes (prime64_1 + prime64_2) prime64_2 0 (- prime64_1) b of
                  ((v1, v2, v3, v4), rest) \<Rightarrow>
                    (xxh_mergeRound (xxh_mergeRound (xxh_mergeRound (xxh_mergeRound
                       (rol64 v1 1 + rol64 v2 7 + rol64 v3 12 + rol64 v4 18) v1) v2) v3) v4, rest))
             else (prime64_5, b));
          (h1, rest1) = xxh_words (h0 + of_nat n) rest;
          (h2, rest2) = xxh_half h1 rest1
      in xxh_avalanche (xxh_bytes h2 rest2))"

definition Sum64String :: "string \<Rightarrow> u64" where
  "Sum64String s = Sum64 s"

section \<open>Errors\<close>

text \<open>
  Go error values.  \<open>Wrapf cause msg\<close> is \<^verbatim>\<open>errors.Wrapf\<close> of \<^verbatim>\<open>github.com/pkg/errors\<close>;
  \<open>ErrorsNew msg\<close> is a value made by \<^verbatim>\<open>errors.New\<close> or \<^verbatim>\<open>fmt.Errorf\<close>;
  \<open>SSHExitError signal msg status\<close> is a \<^verbatim>\<open>*ssh.ExitError\<close> with what its \<^verbatim>\<open>Waitmsg\<close> reports;
  \<open>OtherError\<close> is an error of any other dynamic type.
\<close>

datatype error =
    ErrPathEndsInSlash
  | ErrPathContainsInvalidChars
  | ErrPathContainsDuplicateSlash
  | ErrSwapTypeMismatch
  | ErrorsNew string
  | Wrapf error string
  | SSHExitError string string int
  | OtherError string

section \<open>Identity and path scheme (metadata.go)\<close>

subsection \<open>ValidateGenericPath\<close>

definition is_lower :: "char \<Rightarrow> bool" where
  "is_lower c = (97 \<le> (of_char c :: nat) \<and> (of_char c :: nat) \<le> 122)"

definition is_digit :: "char \<Rightarrow> bool" where
  "is_digit c = (48 \<le> (of_char c :: nat) \<and> (of_char c :: nat) \<le> 57)"

text \<open>The two character classes of \<^verbatim>\<open>genericPathRegexp\<close>: \<^verbatim>\<open>[a-z0-9\-\/]\<close> and \<^verbatim>\<open>[a-z0-9]\<close>.\<close>

definition class_body :: "char \<Rightarrow> bool" where
  "class_body c = (is_lower c \<or> is_digit c \<or> c = CHR ''-'' \<or> c = slash)"

definition class_last :: "char \<Rightarrow> bool" where
  "class_last c = (is_lower c \<or> is_digit c)"

text \<open>
  \<^verbatim>\<open>genericPathRegexp.MatchString\<close> for \<^verbatim>\<open>^\/[a-z0-9\-\/]{3,}[a-z0-9]$\<close>: the whole string is a
  slash, at least three bytes of the first class and one byte of the second.
\<close>

definition genericPathRegexp_MatchString :: "string \<Rightarrow> bool" where
  "genericPathRegexp_MatchString p =
     (case p of
        [] \<Rightarrow> False
      | c # rest \<Rightarrow> c = slash \<and> 4 \<le> length rest \<and> list_all class_body (butlast rest)
                     \<and> class_last (last rest))"

text \<open>\<^verbatim>\<open>consecutiveSlashRegexp.MatchString\<close> for \<^verbatim>\<open>\/\/\<close>: two slashes in a row somewhere.\<close>

fun consecutiveSlashRegexp_MatchString :: "string \<Rightarrow> bool" where
  "consecutiveSlashRegexp_MatchString (a # b # cs) =
     (a = slash \<and> b = slash \<or> consecutiveSlashRegexp_MatchString (b # cs))"
| "consecutiveSlashRegexp_MatchString _ = False"

definition ValidateGenericPath :: "string \<Rightarrow> error option" where
  "ValidateGenericPath p =
     (if \<not> genericPathRegexp_MatchString p then Some ErrPathContainsInvalidChars
      else if consecutiveSlashRegexp_MatchString p then Some ErrPathContainsDuplicateSlash
      else None)"

subsection \<open>LFType, TypeByPath, IsGlobalType\<close>

type_synonym lFType = string

definition LFTypeCompetition :: lFType where "LFTypeCompetition = ''competition''"
definition LFTypeNetwork :: lFType where "LFTypeNetwork = ''network''"
definition LFTypeHost :: lFType where "LFTypeHost = ''host''"
definition LFTypeRemoteFile :: lFType where "LFTypeRemoteFile = ''remote_file''"
definition LFTypeCommand :: lFType where "LFTypeCommand = ''command''"
definition LFTypeDNSRecord :: lFType where "LFTypeDNSRecord = ''dns_record''"
definition LFTypeScript :: lFType where "LFTypeScript = ''script''"
definition LFTypeEnvironment :: lFType where "LFTypeEnvironment = ''environment''"
definition LFTypeBuild :: lFType where "LFTypeBuild = ''build''"
definition LFTypeTeam :: lFType where "LFTypeTeam = ''team''"
definition LFTypeProvisionedNetwork :: lFType where "LFTypeProvisionedNetwork = ''provisioned_network''"
definition LFTypeProvisionedHost :: lFType where "LFTypeProvisionedHost = ''provisioned_host''"
definition LFTypeConnection :: lFType where "LFTypeConnection = ''connection''"
definition LFTypeProvisioningStep :: lFType where "LFTypeProvisioningStep = ''provisioning_step''"
definition LFTypeUnknown :: lFType where "LFTypeUnknown = ''unknown''"

text \<open>\<^verbatim>\<open>pelms[1]\<close>: indexing a slice out of range panics.\<close>

definition index1 :: "'a list \<Rightarrow> 'a outcome" where
  "index1 xs = (case xs of _ # e # _ \<Rightarrow> Returns e | _ \<Rightarrow> Panics)"

definition TypeByPath :: "string \<Rightarrow> lFType outcome" where
  "TypeByPath p =
     (if \<not> path_IsAbs p then Returns LFTypeCompetition
      else
        let pelms = strings_Split p slash in
        obind (index1 pelms) (\<lambda>e1.
          if e1 = ''scripts'' then Returns LFTypeScript
          else if e1 = ''networks'' then Returns LFTypeNetwork
          else if e1 = ''hosts'' then Returns LFTypeHost
          else if e1 = ''commands'' then Returns LFTypeCommand
          else if e1 = ''dns-records'' then Returns LFTypeDNSRecord
          else if e1 = ''files'' then Returns LFTypeRemoteFile
          else if path_Base (path_Dir p) = ''envs'' then Returns LFTypeEnvironment
          else if path_Base (path_Dir (path_Dir p)) = ''envs'' then Returns LFTypeBuild
          else if path_Base (path_Dir p) = ''teams'' then Returns LFTypeTeam
          else if path_Base (path_Dir p) = ''networks'' \<and> e1 = ''envs''
            then Returns LFTypeProvisionedNetwork
          else if path_Base (path_Dir p) = ''hosts'' \<and> e1 = ''envs''
            then Returns LFTypeProvisionedHost
          else if path_Base p = ''conn'' \<and> path_Base (path_Dir (path_Dir p)) = ''hosts''
            then Returns LFTypeConnection
          else if path_Base (path_Dir p) = ''steps'' \<and> e1 = ''envs''
            then Returns LFTypeProvisioningStep
          else Returns LFTypeUnknown))"

definition IsGlobalType :: "string \<Rightarrow> bool outcome" where
  "IsGlobalType p =
     obind (TypeByPath p) (\<lambda>t.
       if t = LFTypeCompetition then Returns True
       else if t = LFTypeCommand then Returns True
       else if t = LFTypeNetwork then Returns True
       else if t = LFTypeHost then Returns True
       else if t = LFTypeDNSRecord then Returns True
       else if t = LFTypeRemoteFile then Returns True
       else if t = LFTypeScript then Returns True
       else if t = LFTypeEnvironment then Returns False
       else if t = LFTypeTeam then Returns False
       else if t = LFTypeProvisionedNetwork then Returns False
       else if t = LFTypeProvisionedHost then Returns False
       else if t = LFTypeProvisioningStep then Returns False
       else if t = LFTypeUnknown then Returns False
       else Returns False)"


section \<open>The data model\<close>

text \<open>
  Types whose declarations are not among the sources at hand: a value of such a type is an
  opaque token, and whatever the code does with it goes through the record \<open>ext\<close> below.
\<close>

datatype formatable = Formatable nat
datatype caller = Caller nat
datatype status = Status nat
datatype time = Time nat
datatype user = User nat
datatype team = Team nat
datatype build = Build nat
datatype environment = Environment nat
datatype competition = Competition nat
datatype host = Host nat
datatype provisionedHost = ProvisionedHost nat
datatype script = Script nat
datatype sSHAuthConfig = SSHAuthConfig nat
datatype winRMAuthConfig = WinRMAuthConfig nat

text \<open>
  A struct is a record; a field of pointer type holds \<open>None\<close> for \<^verbatim>\<open>nil\<close> and otherwise the value
  pointed to; a field of interface type holds \<open>None\<close> for the nil interface.
\<close>

record onConflict =
  OnConflict_Do :: string
  OnConflict_Append :: bool

record iO =
  IO_Stdin :: string
  IO_Stdout :: string
  IO_Stderr :: string

record network =
  Network_Formatable :: "formatable option"
  Network_ID :: string
  Network_Name :: string
  Network_CIDR :: string
  Network_VDIVisible :: bool
  Network_Vars :: strmap
  Network_Tags :: strmap
  Network_OnConflict :: "onConflict option"
  Network_Caller :: caller

record dNSRecord =
  DNSRecord_Formatable :: "formatable option"
  DNSRecord_ID :: string
  DNSRecord_Name :: string
  DNSRecord_Values :: "string list"
  DNSRecord_Type :: string
  DNSRecord_Zone :: string
  DNSRecord_Vars :: strmap
  DNSRecord_Tags :: strmap
  DNSRecord_Disabled :: bool
  DNSRecord_OnConflict :: "onConflict option"
  DNSRecord_Caller :: caller

record command =
  Command_Formatable :: "formatable option"
  Command_ID :: string
  Command_Name :: string
  Command_Description :: string
  Command_Program :: string
  Command_Args :: "string list"
  Command_IgnoreErrors :: bool
  Command_Cooldown :: u64
  Command_IO :: "iO option"
  Command_Disabled :: bool
  Command_Vars :: strmap
  Command_Tags :: strmap
  Command_OnConflict :: "onConflict option"
  Command_Maintainer :: "user option"
  Command_Caller :: caller

record remoteFile =
  RemoteFile_Formatable :: "formatable option"
  RemoteFile_ID :: string
  RemoteFile_SourceType :: string
  RemoteFile_Source :: string
  RemoteFile_Destination :: string
  RemoteFile_Vars :: strmap
  RemoteFile_Tags :: strmap
  RemoteFile_Template :: bool
  RemoteFile_Perms :: string
  RemoteFile_Disabled :: bool
  RemoteFile_OnConflict :: "onConflict option"
  RemoteFile_MD5 :: string
  RemoteFile_Caller :: caller
  RemoteFile_AbsPath :: string
  RemoteFile_Ext :: string

record provisionedNetwork =
  ProvisionedNetwork_Formatable :: "formatable option"
  ProvisionedNetwork_ID :: string
  ProvisionedNetwork_Name :: string
  ProvisionedNetwork_CIDR :: string
  ProvisionedNetwork_NetworkID :: string
  ProvisionedNetwork_ProvisionedHosts :: "(string, provisionedHost) mapping"
  ProvisionedNetwork_Status :: status
  ProvisionedNetwork_Network :: "network option"
  ProvisionedNetwork_Team :: "team option"
  ProvisionedNetwork_Build :: "build option"
  ProvisionedNetwork_Environment :: "environment option"
  ProvisionedNetwork_Competition :: "competition option"
  ProvisionedNetwork_OnConflict :: "onConflict option"
  ProvisionedNetwork_Caller :: caller
  ProvisionedNetwork_Dir :: string

text \<open>The interface \<^verbatim>\<open>Provisioner\<close>: a pointer to one of four kinds (the pointer may be nil).\<close>

datatype provisioner =
    PCommand "command option"
  | PDNSRecord "dNSRecord option"
  | PRemoteFile "remoteFile option"
  | PScript "script option"

record provisioningStep =
  ProvisioningStep_Formatable :: "formatable option"
  ProvisioningStep_ID :: string
  ProvisioningStep_ProvisionerID :: string
  ProvisioningStep_ProvisionerType :: string
  ProvisioningStep_StepNumber :: u64
  ProvisioningStep_Status :: string
  ProvisioningStep_ProvisionedHost :: "provisionedHost option"
  ProvisioningStep_ProvisionedNetwork :: "provisionedNetwork option"
  ProvisioningStep_Host :: "host option"
  ProvisioningStep_Network :: "network option"
  ProvisioningStep_Team :: "team option"
  ProvisioningStep_Build :: "build option"
  ProvisioningStep_Environment :: "environment option"
  ProvisioningStep_Competition :: "competition option"
  ProvisioningStep_Provisioner :: "provisioner option"
  ProvisioningStep_Script :: "script option"
  ProvisioningStep_Command :: "command option"
  ProvisioningStep_RemoteFile :: "remoteFile option"
  ProvisioningStep_DNSRecord :: "dNSRecord option"
  ProvisioningStep_OnConflict :: "onConflict option"
  ProvisioningStep_Caller :: caller
  ProvisioningStep_Dir :: string

record connection =
  Connection_ID :: string
  Connection_Active :: bool
  Connection_LocalAddr :: string
  Connection_RemoteAddr :: string
  Connection_ResourceName :: string
  Connection_SSHAuthConfig :: "sSHAuthConfig option"
  Connection_WinRMAuthConfig :: "winRMAuthConfig option"
  Connection_Revision :: u64
  Connection_OnConflict :: "onConflict option"
  Connection_Competition :: "competition option"
  Connection_Environment :: "environment option"
  Connection_Build :: "build option"
  Connection_Team :: "team option"
  Connection_Network :: "network option"
  Connection_Host :: "host option"
  Connection_ProvisionedHost :: "provisionedHost option"
  Connection_ProvisionedNetwork :: "provisionedNetwork option"
  Connection_Caller :: caller

record metaResource =
  MetaResource_ID :: string
  MetaResource_PathFromBase :: string
  MetaResource_Basename :: string
  MetaResource_ParentIDs :: "string list"
  MetaResource_IsDir :: bool
  MetaResource_CreatedAt :: time
  MetaResource_ModifiedAt :: time
  MetaResource_Checksum :: u64
  MetaResource_Size :: u64

text \<open>
  \<^verbatim>\<open>Metadata\<close> wraps a value of the interface \<^verbatim>\<open>Dependency\<close>: \<open>'d\<close> is the object behind the
  interface, \<open>None\<close> the nil interface.
\<close>

record 'd metadata =
  Metadata_Formatable :: "formatable option"
  Metadata_Dependency :: "'d option"
  Metadata_ID :: string
  Metadata_ObjectType :: lFType
  Metadata_Created :: bool
  Metadata_Tainted :: bool
  Metadata_Addition :: bool
  Metadata_Checksum :: u64
  Metadata_CreatedAt :: time
  Metadata_ModifiedAt :: time
  Metadata_Resources :: "metaResource list"

text \<open>
  The code of this repository that the functions below call and that is not among the sources
  at hand, and the file system they read.  A method on a pointer receiver gets the pointer
  (\<open>None\<close> is nil) and may panic.
\<close>

record ext =
  HashConfigMap :: "strmap \<Rightarrow> u64 outcome"
  Team_Hash :: "team option \<Rightarrow> u64 outcome"
  Team_Path :: "team option \<Rightarrow> string outcome"
  Status_Hash :: "status \<Rightarrow> u64 outcome"
  Script_Hash :: "script option \<Rightarrow> u64 outcome"
  Script_Base :: "script option \<Rightarrow> string outcome"
  SSHAuthConfig_Hash :: "sSHAuthConfig \<Rightarrow> u64 outcome"
  WinRMAuthConfig_Hash :: "winRMAuthConfig \<Rightarrow> u64 outcome"
  ProvisionedHost_Path :: "provisionedHost option \<Rightarrow> string outcome"
  ProvisionedHost_LaforgeID :: "provisionedHost option \<Rightarrow> string outcome"
  ReadFile :: "string \<Rightarrow> string option"


section \<open>Hashing (the \<^verbatim>\<open>Hash\<close> methods)\<close>

subsection \<open>network.go\<close>

definition Network_Hash :: "ext \<Rightarrow> network \<Rightarrow> u64 outcome" where
  "Network_Hash x n =
     obind (HashConfigMap x (Network_Vars n)) (\<lambda>vars.
       Returns (Sum64String
         (''name='' @ Network_Name n @ '' cidr='' @ Network_CIDR n
          @ '' vdivisible='' @ fmt_bool (Network_VDIVisible n) @ '' vars='' @ fmt_u64 vars)))"

definition Network_Path :: "network \<Rightarrow> string" where
  "Network_Path n = Network_ID n"

definition Network_Base :: "network \<Rightarrow> string" where
  "Network_Base n = path_Base (Network_ID n)"

subsection \<open>dns_record.go\<close>

definition DNSRecord_Hash :: "dNSRecord \<Rightarrow> u64" where
  "DNSRecord_Hash r =
     Sum64String
       (''name='' @ DNSRecord_Name r @ '' values='' @ fmt_strings (DNSRecord_Values r)
        @ '' type='' @ DNSRecord_Type r @ '' zone='' @ DNSRecord_Zone r
        @ '' vars='' @ fmt_map (DNSRecord_Vars r) @ '' disabled='' @ fmt_bool (DNSRecord_Disabled r))"

definition DNSRecord_Base :: "dNSRecord \<Rightarrow> string" where
  "DNSRecord_Base r = path_Base (DNSRecord_ID r)"

subsection \<open>Command\<close>

definition Command_Hash :: "command \<Rightarrow> u64" where
  "Command_Hash c =
     (let iostr = (case Command_IO c of
                     None \<Rightarrow> ''n/a''
                   | Some io \<Rightarrow> IO_Stderr io @ IO_Stdin io @ IO_Stdout io)
      in Sum64String
           (''program='' @ Command_Program c @ '' args='' @ strings_Join (Command_Args c) '',''
            @ '' ignoreerrors='' @ fmt_bool (Command_IgnoreErrors c)
            @ '' cooldown='' @ fmt_int (Command_Cooldown c) @ '' io='' @ iostr
            @ '' disabled='' @ fmt_bool (Command_Disabled c) @ '' vars='' @ fmt_map (Command_Vars c)))"

definition Command_Base :: "command \<Rightarrow> string" where
  "Command_Base c = path_Base (Command_ID c)"

subsection \<open>remote_file.go\<close>

text \<open>
  \<^verbatim>\<open>ResourceHash\<close> reads the file at \<^verbatim>\<open>AbsPath\<close>; when the read fails it prints a message
  to standard output (not modelled: nothing below observes the output) and returns 666.
\<close>

definition RemoteFile_ResourceHash :: "ext \<Rightarrow> remoteFile \<Rightarrow> u64" where
  "RemoteFile_ResourceHash x r =
     (case ReadFile x (RemoteFile_AbsPath r) of
        None \<Rightarrow> 666
      | Some dep \<Rightarrow> Sum64 dep)"

definition RemoteFile_Hash :: "ext \<Rightarrow> remoteFile \<Rightarrow> u64" where
  "RemoteFile_Hash x r =
     Sum64String
       (''sourcetype='' @ RemoteFile_SourceType r @ '' destination='' @ RemoteFile_Destination r
        @ '' vars='' @ fmt_map (RemoteFile_Vars r) @ '' template='' @ fmt_bool (RemoteFile_Template r)
        @ '' perms='' @ RemoteFile_Perms r @ '' disabled='' @ fmt_bool (RemoteFile_Disabled r)
        @ '' source='' @ fmt_u64 (RemoteFile_ResourceHash x r))"

definition RemoteFile_Base :: "remoteFile \<Rightarrow> string" where
  "RemoteFile_Base r = path_Base (RemoteFile_ID r)"

subsection \<open>provisioning_step.go\<close>

text \<open>A method called through the interface: the receiver pointer is dereferenced by the method.\<close>

definition Provisioner_Hash :: "ext \<Rightarrow> provisioner \<Rightarrow> u64 outcome" where
  "Provisioner_Hash x pv =
     (case pv of
        PCommand None \<Rightarrow> Panics
      | PCommand (Some c) \<Rightarrow> Returns (Command_Hash c)
      | PDNSRecord None \<Rightarrow> Panics
      | PDNSRecord (Some r) \<Rightarrow> Returns (DNSRecord_Hash r)
      | PRemoteFile None \<Rightarrow> Panics
      | PRemoteFile (Some r) \<Rightarrow> Returns (RemoteFile_Hash x r)
      | PScript s \<Rightarrow> Script_Hash x s)"

definition Provisioner_Base :: "ext \<Rightarrow> provisioner \<Rightarrow> string outcome" where
  "Provisioner_Base x pv =
     (case pv of
        PCommand None \<Rightarrow> Panics
      | PCommand (Some c) \<Rightarrow> Returns (Command_Base c)
      | PDNSRecord None \<Rightarrow> Panics
      | PDNSRecord (Some r) \<Rightarrow> Returns (DNSRecord_Base r)
      | PRemoteFile None \<Rightarrow> Panics
      | PRemoteFile (Some r) \<Rightarrow> Returns (RemoteFile_Base r)
      | PScript s \<Rightarrow> Script_Base x s)"

definition ProvisioningStep_Hash :: "ext \<Rightarrow> provisioningStep \<Rightarrow> u64 outcome" where
  "ProvisioningStep_Hash x p =
     (case ProvisioningStep_Provisioner p of
        None \<Rightarrow> Panics
      | Some pv \<Rightarrow>
          obind (Provisioner_Hash x pv) (\<lambda>phash.
            Returns (Sum64String
              (''pid='' @ ProvisioningStep_ProvisionerID p
               @ '' ptype='' @ ProvisioningStep_ProvisionerType p
               @ '' phash='' @ fmt_u64 phash
               @ '' snum='' @ fmt_int (ProvisioningStep_StepNumber p)))))"

definition ProvisioningStep_LaforgeID :: "provisioningStep \<Rightarrow> string" where
  "ProvisioningStep_LaforgeID p = ProvisioningStep_ID p"

definition ProvisioningStep_ParentLaforgeID :: "provisioningStep \<Rightarrow> string" where
  "ProvisioningStep_ParentLaforgeID p = path_Dir (path_Dir (ProvisioningStep_LaforgeID p))"

text \<open>
  The type switch of \<^verbatim>\<open>SetID\<close>: the provisioner is stored in the field of its own type.  A
  nil interface matches no case.
\<close>

definition link_provisioner :: "provisioningStep \<Rightarrow> provisioningStep" where
  "link_provisioner p =
     (case ProvisioningStep_Provisioner p of
        Some (PCommand v) \<Rightarrow> p\<lparr>ProvisioningStep_Command := v\<rparr>
      | Some (PDNSRecord v) \<Rightarrow> p\<lparr>ProvisioningStep_DNSRecord := v\<rparr>
      | Some (PRemoteFile v) \<Rightarrow> p\<lparr>ProvisioningStep_RemoteFile := v\<rparr>
      | Some (PScript v) \<Rightarrow> p\<lparr>ProvisioningStep_Script := v\<rparr>
      | None \<Rightarrow> p)"

text \<open>\<^verbatim>\<open>SetID\<close> returns the path and the receiver as the call leaves it.\<close>

definition ProvisioningStep_SetID :: "ext \<Rightarrow> provisioningStep \<Rightarrow> (string \<times> provisioningStep) outcome" where
  "ProvisioningStep_SetID x p =
     obind
       (if ProvisioningStep_ID p = [] then
          obind (ProvisionedHost_Path x (ProvisioningStep_ProvisionedHost p)) (\<lambda>hostpath.
            case ProvisioningStep_Provisioner p of
              None \<Rightarrow> Panics
            | Some pv \<Rightarrow>
                obind (Provisioner_Base x pv) (\<lambda>base.
                  Returns (p\<lparr>ProvisioningStep_ID :=
                    path_Join [hostpath, ''steps'',
                               fmt_int (ProvisioningStep_StepNumber p) @ ''-'' @ base]\<rparr>)))
        else Returns p)
       (\<lambda>p1. let p2 = link_provisioner p1 in Returns (ProvisioningStep_ID p2, p2))"

subsection \<open>provisioned_network.go\<close>

definition ProvisionedNetwork_Hash :: "ext \<Rightarrow> provisionedNetwork \<Rightarrow> u64 outcome" where
  "ProvisionedNetwork_Hash x p =
     (case ProvisionedNetwork_Network p of
        None \<Rightarrow> Panics
      | Some n \<Rightarrow>
          obind (Network_Hash x n) (\<lambda>net.
          obind (Team_Hash x (ProvisionedNetwork_Team p)) (\<lambda>team.
          obind (Status_Hash x (ProvisionedNetwork_Status p)) (\<lambda>status.
            Returns (Sum64String
              (''name='' @ ProvisionedNetwork_Name p @ '' cidr='' @ ProvisionedNetwork_CIDR p
               @ '' net='' @ fmt_u64 net @ '' team='' @ fmt_u64 team
               @ '' status='' @ fmt_u64 status))))))"

definition ProvisionedNetwork_LaforgeID :: "provisionedNetwork \<Rightarrow> string" where
  "ProvisionedNetwork_LaforgeID p = ProvisionedNetwork_ID p"

definition ProvisionedNetwork_ParentLaforgeID :: "provisionedNetwork \<Rightarrow> string" where
  "ProvisionedNetwork_ParentLaforgeID p = path_Dir (path_Dir (ProvisionedNetwork_LaforgeID p))"

definition ProvisionedNetwork_SetID :: "ext \<Rightarrow> provisionedNetwork \<Rightarrow> (string \<times> provisionedNetwork) outcome" where
  "ProvisionedNetwork_SetID x p =
     obind
       (if ProvisionedNetwork_ID p = [] then
          obind (Team_Path x (ProvisionedNetwork_Team p)) (\<lambda>teampath.
            case ProvisionedNetwork_Network p of
              None \<Rightarrow> Panics
            | Some n \<Rightarrow>
                Returns (p\<lparr>ProvisionedNetwork_ID :=
                  path_Join [teampath, ''networks'', Network_Base n]\<rparr>))
        else Returns p)
       (\<lambda>p1.
          obind
            (if ProvisionedNetwork_NetworkID p1 = [] then
               (case ProvisionedNetwork_Network p1 of
                  None \<Rightarrow> Panics
                | Some n \<Rightarrow> Returns (p1\<lparr>ProvisionedNetwork_NetworkID := Network_Path n\<rparr>))
             else Returns p1)
            (\<lambda>p2. Returns (ProvisionedNetwork_ID p2, p2)))"

subsection \<open>Connection\<close>

definition Connection_IsSSH :: "connection \<Rightarrow> bool" where
  "Connection_IsSSH c = (Connection_SSHAuthConfig c \<noteq> None)"

definition Connection_IsWinRM :: "connection \<Rightarrow> bool" where
  "Connection_IsWinRM c = (Connection_WinRMAuthConfig c \<noteq> None)"

definition Connection_Hash :: "ext \<Rightarrow> connection \<Rightarrow> u64 outcome" where
  "Connection_Hash x c =
     obind (case Connection_WinRMAuthConfig c of
              None \<Rightarrow> Returns 666
            | Some cfg \<Rightarrow> WinRMAuthConfig_Hash x cfg) (\<lambda>wrmc.
     obind (case Connection_SSHAuthConfig c of
              None \<Rightarrow> Returns 666
            | Some cfg \<Rightarrow> SSHAuthConfig_Hash x cfg) (\<lambda>sshc.
       Returns (Sum64String
         (''id='' @ Connection_ID c @ '' localaddr='' @ Connection_LocalAddr c
          @ '' rmaddr='' @ Connection_RemoteAddr c @ '' rname='' @ Connection_ResourceName c
          @ '' sshc='' @ fmt_u64 sshc @ '' wrmc='' @ fmt_u64 wrmc))))"

definition Connection_Path :: "connection \<Rightarrow> string" where
  "Connection_Path c = Connection_ID c"

definition Connection_ParentLaforgeID :: "connection \<Rightarrow> string" where
  "Connection_ParentLaforgeID c = path_Dir (Connection_Path c)"

definition Connection_SetID :: "ext \<Rightarrow> connection \<Rightarrow> (string \<times> connection) outcome" where
  "Connection_SetID x c =
     obind
       (if Connection_ID c = [] then
          obind (ProvisionedHost_LaforgeID x (Connection_ProvisionedHost c)) (\<lambda>hostid.
            Returns (c\<lparr>Connection_ID := path_Join [hostid, ''conn'']\<rparr>))
        else Returns c)
       (\<lambda>c1. Returns (Connection_ID c1, c1))"


section \<open>Metadata (metadata.go)\<close>

text \<open>
  \<open>dhash\<close> is the method \<^verbatim>\<open>Hash\<close> of the wrapped \<^verbatim>\<open>Dependency\<close>.  Besides the receiver as
  the call leaves it, the two functions return the log of the calls of \<open>dhash\<close> they made.
  Calling a method of a nil interface panics.
\<close>

definition Metadata_CalculateChecksum ::
  "('d \<Rightarrow> u64 outcome) \<Rightarrow> 'd metadata \<Rightarrow> ('d metadata \<times> 'd list) outcome" where
  "Metadata_CalculateChecksum dhash m =
     (case Metadata_Dependency m of
        None \<Rightarrow> Panics
      | Some d \<Rightarrow> obind (dhash d) (\<lambda>h. Returns (m\<lparr>Metadata_Checksum := h\<rparr>, [d])))"

definition Metadata_Hash ::
  "('d \<Rightarrow> u64 outcome) \<Rightarrow> 'd metadata \<Rightarrow> (u64 \<times> 'd metadata \<times> 'd list) outcome" where
  "Metadata_Hash dhash m =
     (if Metadata_Checksum m = 0 then
        obind (Metadata_CalculateChecksum dhash m) (\<lambda>(m1, calls).
          Returns (Metadata_Checksum m1, m1, calls))
      else Returns (Metadata_Checksum m, m, []))"

definition Metadata_Label :: "'d metadata \<Rightarrow> string outcome" where
  "Metadata_Label m =
     (if Metadata_Dependency m = None then Panics
      else Returns
        (''<table border=\"0\" cellborder=\"0\" cellspacing=\"1\">''
         @ ''<tr><td align=\"center\"><b>'' @ Metadata_ID m @ ''</b></td></tr>''
         @ ''<tr><td align=\"left\"><font face=\"Courier\" point-size=\"11\">type     = ''
         @ Metadata_ObjectType m @ ''</font></td></tr>''
         @ ''<tr><td align=\"left\"><font face=\"Courier\" point-size=\"11\">checksum = ''
         @ fmt_hex (Metadata_Checksum m) @ ''</font></td></tr></table>''))"

section \<open>Merging: the \<^verbatim>\<open>Swap\<close> methods\<close>

text \<open>
  \<^verbatim>\<open>Swap\<close> writes through its receiver, so its operands are addresses in a store: one typed
  heap per kind.  A pointer is \<open>None\<close> (nil) or an address; a value of the interface
  \<^verbatim>\<open>Mergeable\<close> is nil or a pointer tagged with its dynamic type.  \<open>OtherPtr\<close> stands for the
  kinds whose sources are not at hand, with the name \<^verbatim>\<open>%T\<close> prints.
\<close>

type_synonym addr = nat

record heaps =
  heap_Network :: "addr \<rightharpoonup> network"
  heap_DNSRecord :: "addr \<rightharpoonup> dNSRecord"
  heap_Command :: "addr \<rightharpoonup> command"
  heap_RemoteFile :: "addr \<rightharpoonup> remoteFile"
  heap_ProvisioningStep :: "addr \<rightharpoonup> provisioningStep"
  heap_ProvisionedNetwork :: "addr \<rightharpoonup> provisionedNetwork"
  heap_Connection :: "addr \<rightharpoonup> connection"

datatype mergeable =
    NilMergeable
  | NetworkPtr "addr option"
  | DNSRecordPtr "addr option"
  | CommandPtr "addr option"
  | RemoteFilePtr "addr option"
  | ProvisioningStepPtr "addr option"
  | ProvisionedNetworkPtr "addr option"
  | ConnectionPtr "addr option"
  | OtherPtr string "addr option"

fun fmt_T :: "mergeable \<Rightarrow> string" where
  "fmt_T NilMergeable = ''<nil>''"
| "fmt_T (NetworkPtr _) = ''*core.Network''"
| "fmt_T (DNSRecordPtr _) = ''*core.DNSRecord''"
| "fmt_T (CommandPtr _) = ''*core.Command''"
| "fmt_T (RemoteFilePtr _) = ''*core.RemoteFile''"
| "fmt_T (ProvisioningStepPtr _) = ''*core.ProvisioningStep''"
| "fmt_T (ProvisionedNetworkPtr _) = ''*core.ProvisionedNetwork''"
| "fmt_T (ConnectionPtr _) = ''*core.Connection''"
| "fmt_T (OtherPtr name _) = name"

text \<open>The assignment \<^verbatim>\<open>*n = *rawVal\<close>: both pointers are dereferenced.\<close>

definition assign_deref :: "addr option \<Rightarrow> addr option \<Rightarrow> (addr \<rightharpoonup> 'a) \<Rightarrow> (addr \<rightharpoonup> 'a) outcome" where
  "assign_deref n rawVal h =
     (case rawVal of
        None \<Rightarrow> Panics
      | Some q \<Rightarrow>
          (case h q of
             None \<Rightarrow> Panics
           | Some v \<Rightarrow>
               (case n of
                  None \<Rightarrow> Panics
                | Some r \<Rightarrow> (case h r of None \<Rightarrow> Panics | Some _ \<Rightarrow> Returns (h(r \<mapsto> v))))))"

definition mismatch :: "string \<Rightarrow> mergeable \<Rightarrow> error" where
  "mismatch expected m = Wrapf ErrSwapTypeMismatch (''expected '' @ expected @ '', got '' @ fmt_T m)"

definition Network_Swap :: "addr option \<Rightarrow> mergeable \<Rightarrow> heaps \<Rightarrow> (error option \<times> heaps) outcome" where
  "Network_Swap n m H =
     (case m of
        NetworkPtr rawVal \<Rightarrow>
          obind (assign_deref n rawVal (heap_Network H)) (\<lambda>h. Returns (None, H\<lparr>heap_Network := h\<rparr>))
      | _ \<Rightarrow> Returns (Some (mismatch ''*core.Network'' m), H))"

definition DNSRecord_Swap :: "addr option \<Rightarrow> mergeable \<Rightarrow> heaps \<Rightarrow> (error option \<times> heaps) outcome" where
  "DNSRecord_Swap r m H =
     (case m of
        DNSRecordPtr rawVal \<Rightarrow>
          obind (assign_deref r rawVal (heap_DNSRecord H)) (\<lambda>h. Returns (None, H\<lparr>heap_DNSRecord := h\<rparr>))
      | _ \<Rightarrow> Returns (Some (mismatch ''*core.DNSRecord'' m), H))"

definition Command_Swap :: "addr option \<Rightarrow> mergeable \<Rightarrow> heaps \<Rightarrow> (error option \<times> heaps) outcome" where
  "Command_Swap c m H =
     (case m of
        CommandPtr rawVal \<Rightarrow>
          obind (assign_deref c rawVal (heap_Command H)) (\<lambda>h. Returns (None, H\<lparr>heap_Command := h\<rparr>))
      | _ \<Rightarrow> Returns (Some (mismatch ''*core.Command'' m), H))"

definition RemoteFile_Swap :: "addr option \<Rightarrow> mergeable \<Rightarrow> heaps \<Rightarrow> (error option \<times> heaps) outcome" where
  "RemoteFile_Swap r m H =
     (case m of
        RemoteFilePtr rawVal \<Rightarrow>
          obind (assign_deref r rawVal (heap_RemoteFile H)) (\<lambda>h. Returns (None, H\<lparr>heap_RemoteFile := h\<rparr>))
      | _ \<Rightarrow> Returns (Some (mismatch ''*core.RemoteFile'' m), H))"

definition ProvisioningStep_Swap :: "addr option \<Rightarrow> mergeable \<Rightarrow> heaps \<Rightarrow> (error option \<times> heaps) outcome" where
  "ProvisioningStep_Swap p m H =
     (case m of
        ProvisioningStepPtr rawVal \<Rightarrow>
          obind (assign_deref p rawVal (heap_ProvisioningStep H))
            (\<lambda>h. Returns (None, H\<lparr>heap_ProvisioningStep := h\<rparr>))
      | _ \<Rightarrow> Returns (Some (mismatch ''*core.ProvisioningStep'' m), H))"

definition ProvisionedNetwork_Swap :: "addr option \<Rightarrow> mergeable \<Rightarrow> heaps \<Rightarrow> (error option \<times> heaps) outcome" where
  "ProvisionedNetwork_Swap p m H =
     (case m of
        ProvisionedNetworkPtr rawVal \<Rightarrow>
          obind (assign_deref p rawVal (heap_ProvisionedNetwork H))
            (\<lambda>h. Returns (None, H\<lparr>heap_ProvisionedNetwork := h\<rparr>))
      | _ \<Rightarrow> Returns (Some (mismatch ''*core.ProvisionedNetwork'' m), H))"

definition Connection_Swap :: "addr option \<Rightarrow> mergeable \<Rightarrow> heaps \<Rightarrow> (error option \<times> heaps) outcome" where
  "Connection_Swap c m H =
     (case m of
        ConnectionPtr rawVal \<Rightarrow>
          obind (assign_deref c rawVal (heap_Connection H)) (\<lambda>h. Returns (None, H\<lparr>heap_Connection := h\<rparr>))
      | _ \<Rightarrow> Returns (Some (mismatch ''*core.Connection'' m), H))"


section \<open>Remote execution: UploadExecuteAndDelete\<close>

text \<open>
  What the workflow calls outside the sources at hand: the operating system, the path
  renderers of \<^verbatim>\<open>juju/utils/filepath\<close>, the SSH and WinRM clients, and the helpers
  \<^verbatim>\<open>PerformInTimeout\<close> and \<^verbatim>\<open>NewTimeoutExtension\<close>.  An \<open>error option\<close> is a Go \<^verbatim>\<open>error\<close>, \<open>None\<close>
  being \<^verbatim>\<open>nil\<close>.  \<open>PerformInTimeout w t sent\<close> is what the helper returns when the step it runs
  sends \<open>sent\<close> on its channel.
\<close>

record world =
  os_Stat :: "string \<Rightarrow> error option"
  os_IsDir :: "string \<Rightarrow> bool"
  os_OpenFile :: "string \<Rightarrow> error option"
  error_Error :: "error \<Rightarrow> string"
  NewRenderer :: "string \<Rightarrow> error option"
  currfp_Base :: "string \<Rightarrow> string"
  currfp_Ext :: "string \<Rightarrow> string"
  currfp_Join :: "string \<Rightarrow> string \<Rightarrow> string"
  winfp_Join :: "string \<Rightarrow> string \<Rightarrow> string"
  nixfp_Join :: "string \<Rightarrow> string \<Rightarrow> string"
  PerformInTimeout :: "int \<Rightarrow> error option \<Rightarrow> error option"
  NewTimeoutExtension :: "error \<Rightarrow> error"
  NewSSHClient :: "sSHAuthConfig option \<Rightarrow> error option"
  client_Connect :: "error option"
  client_UploadScriptV2 :: "string \<Rightarrow> string \<Rightarrow> error option"
  client_Start :: "string \<Rightarrow> error option"
  cmd_Wait :: "string \<Rightarrow> error option"
  client_DeleteScriptV2 :: "string \<Rightarrow> error option"
  winrm_Upload :: "string \<Rightarrow> string \<Rightarrow> error option"
  winrm_Execute :: "string \<Rightarrow> error option"
  ProvisionedHost_Host :: "provisionedHost \<Rightarrow> host option"

text \<open>The first error wins: \<^verbatim>\<open>if err != nil { return err }\<close>.\<close>

definition orelse :: "error option \<Rightarrow> error option \<Rightarrow> error option" where
  "orelse a b = (case a of Some e \<Rightarrow> Some e | None \<Rightarrow> b)"

definition Connection_UploadScriptSFTP :: "world \<Rightarrow> connection \<Rightarrow> string \<Rightarrow> string \<Rightarrow> error option" where
  "Connection_UploadScriptSFTP w c src dst =
     orelse (os_Stat w src)
       (if os_IsDir w src then Some (ErrorsNew ''script source cannot be a directory'')
        else orelse (NewSSHClient w (Connection_SSHAuthConfig c))
               (orelse (client_Connect w) (client_UploadScriptV2 w src dst)))"

definition Connection_ExecuteCommandSSH :: "world \<Rightarrow> connection \<Rightarrow> string \<Rightarrow> error option" where
  "Connection_ExecuteCommandSSH w c cmd =
     orelse (NewSSHClient w (Connection_SSHAuthConfig c))
       (orelse (client_Connect w) (orelse (client_Start w cmd) (cmd_Wait w cmd)))"

definition Connection_DeleteScriptSFTP :: "world \<Rightarrow> connection \<Rightarrow> string \<Rightarrow> error option" where
  "Connection_DeleteScriptSFTP w c remotefile =
     orelse (NewSSHClient w (Connection_SSHAuthConfig c))
       (orelse (client_Connect w) (client_DeleteScriptV2 w remotefile))"

text \<open>\<^verbatim>\<open>strings.Replace(s, old, "", -1)\<close>: every occurrence of \<open>old\<close> is removed.\<close>

function strings_Remove :: "string \<Rightarrow> string \<Rightarrow> string" where
  "strings_Remove s old =
     (if old = [] \<or> s = [] then s
      else if take (length old) s = old then strings_Remove (drop (length old) s) old
      else hd s # strings_Remove (tl s) old)"
  by pat_completeness auto
termination
  by (relation "measure (\<lambda>(s, old). length s)") auto

declare strings_Remove.simps [simp del]

text \<open>
  The bounded steps a call has started, in order; the argument of the \<^verbatim>\<open>return\<close> statement
  it reached; and whether the call can hand that value to its caller.  Once the two
  goroutines draining the output pipes are running, the deferred function waits for both of
  them, and they finish only when the pipe writers are closed, which the execute step
  does after it has opened its log files.  Before they are started nothing is waited for.
  The output that travels through the pipes is not modelled.
\<close>

datatype step = StepUpload string string | StepExecute string | StepDelete string

record run =
  run_steps :: "step list"
  run_return :: "error option"
  run_joined :: bool

definition finish :: "step list \<Rightarrow> bool \<Rightarrow> error option \<Rightarrow> run outcome" where
  "finish st joined r = Returns \<lparr>run_steps = st, run_return = r, run_joined = joined\<rparr>"

text \<open>
  The test on the error of the upload step in the SSH branch: \<open>True\<close> when the workflow
  returns it, \<open>False\<close> when it goes on.
\<close>

definition upload_aborts :: "error option \<Rightarrow> bool" where
  "upload_aborts err =
     (case err of
        None \<Rightarrow> False
      | Some (SSHExitError signal msg exitStatus) \<Rightarrow> signal \<noteq> [] \<or> msg \<noteq> [] \<or> exitStatus \<noteq> 1
      | Some _ \<Rightarrow> True)"

text \<open>
  The step that executes the script: the value it sends, and whether it got as far as
  closing the pipe writers.  \<open>exec\<close> is the transport's execute method.
\<close>

definition execute_step :: "world \<Rightarrow> (string \<Rightarrow> error option) \<Rightarrow> string \<Rightarrow> string \<Rightarrow> string
    \<Rightarrow> error option \<times> bool" where
  "execute_step w exec stdoutfile stderrfile finalpath =
     (case os_OpenFile w stderrfile of
        Some e \<Rightarrow> (Some e, False)
      | None \<Rightarrow>
          (case os_OpenFile w stdoutfile of
             Some e \<Rightarrow> (Some e, False)
           | None \<Rightarrow> (map_option (NewTimeoutExtension w) (exec finalpath), True)))"

definition delete_step_WinRM :: "world \<Rightarrow> string \<Rightarrow> string \<Rightarrow> string \<Rightarrow> error option" where
  "delete_step_WinRM w stdoutfile stderrfile finalpath =
     (case os_OpenFile w stderrfile of
        Some e \<Rightarrow> Some e
      | None \<Rightarrow>
          (case os_OpenFile w stdoutfile of
             Some e \<Rightarrow> Some e
           | None \<Rightarrow> map_option (NewTimeoutExtension w) (winrm_Execute w (''del '' @ finalpath))))"

text \<open>
  The log lines of the WinRM branch read \<^verbatim>\<open>c.ProvisionedHost.Host.Base()\<close> unguarded: a nil
  \<^verbatim>\<open>ProvisionedHost\<close> panics, and so does a nil \<^verbatim>\<open>Host\<close> (taking \<^verbatim>\<open>Host.Base\<close> to read the
  receiver's \<^verbatim>\<open>ID\<close>, as every \<^verbatim>\<open>Base\<close> in the sources at hand does).
\<close>

definition host_for_log :: "world \<Rightarrow> connection \<Rightarrow> unit outcome" where
  "host_for_log w c =
     (case Connection_ProvisionedHost c of
        None \<Rightarrow> Panics
      | Some ph \<Rightarrow> (case ProvisionedHost_Host w ph of None \<Rightarrow> Panics | Some _ \<Rightarrow> Returns ()))"

definition UploadExecuteAndDelete_WinRM ::
  "world \<Rightarrow> connection \<Rightarrow> int \<Rightarrow> string \<Rightarrow> string \<Rightarrow> string \<Rightarrow> string \<Rightarrow> run outcome" where
  "UploadExecuteAndDelete_WinRM w c timeout scriptsrc filename stdoutfile stderrfile =
     (let finalpath = winfp_Join w ''C:'' filename;
          st1 = [StepUpload scriptsrc finalpath];
          uerr = PerformInTimeout w timeout
                   (map_option (NewTimeoutExtension w) (winrm_Upload w scriptsrc finalpath))
      in if uerr \<noteq> None then finish st1 False uerr
         else
           obind (host_for_log w c) (\<lambda>_.
             let (sent, closed) = execute_step w (winrm_Execute w) stdoutfile stderrfile finalpath;
                 st2 = st1 @ [StepExecute finalpath];
                 eerr = PerformInTimeout w timeout sent
             in if eerr \<noteq> None then finish st2 closed eerr
                else
                  let st3 = st2 @ [StepDelete finalpath];
                      derr = PerformInTimeout w timeout
                               (delete_step_WinRM w stdoutfile stderrfile finalpath)
                  in finish st3 closed derr))"

text \<open>The SSH branch after the test on the upload step's error.\<close>

definition SSH_after_upload ::
  "world \<Rightarrow> connection \<Rightarrow> int \<Rightarrow> step list \<Rightarrow> string \<Rightarrow> string \<Rightarrow> string \<Rightarrow> run outcome" where
  "SSH_after_upload w c timeout st1 finalpath stdoutfile stderrfile =
     (case Connection_ProvisionedHost c of
        None \<Rightarrow> finish st1 False (Some (ErrorsNew ''provisioned host was nil''))
      | Some ph \<Rightarrow>
          (case ProvisionedHost_Host w ph of
             None \<Rightarrow> finish st1 False (Some (ErrorsNew ''provisioned host's host was nil''))
           | Some _ \<Rightarrow>
               let (sent, closed) =
                     execute_step w (Connection_ExecuteCommandSSH w c) stdoutfile stderrfile finalpath;
                   st2 = st1 @ [StepExecute finalpath];
                   eerr = PerformInTimeout w timeout sent
               in if eerr \<noteq> None then finish st2 closed eerr
                  else
                    let st3 = st2 @ [StepDelete finalpath];
                        derr = PerformInTimeout w timeout
                                 (map_option (NewTimeoutExtension w)
                                    (Connection_DeleteScriptSFTP w c finalpath))
                    in finish st3 closed derr))"

text \<open>The error the bounded upload step of the SSH branch hands back.\<close>

definition SSH_upload_step :: "world \<Rightarrow> connection \<Rightarrow> int \<Rightarrow> string \<Rightarrow> string \<Rightarrow> error option" where
  "SSH_upload_step w c timeout scriptsrc finalpath =
     PerformInTimeout w timeout
       (map_option (NewTimeoutExtension w) (Connection_UploadScriptSFTP w c scriptsrc finalpath))"

definition UploadExecuteAndDelete_SSH ::
  "world \<Rightarrow> connection \<Rightarrow> int \<Rightarrow> string \<Rightarrow> string \<Rightarrow> string \<Rightarrow> string \<Rightarrow> run outcome" where
  "UploadExecuteAndDelete_SSH w c timeout scriptsrc filename stdoutfile stderrfile =
     (let finalpath = nixfp_Join w ''/root'' filename;
          st1 = [StepUpload scriptsrc finalpath];
          uerr = SSH_upload_step w c timeout scriptsrc finalpath
      in if upload_aborts uerr then finish st1 False uerr
         else SSH_after_upload w c timeout st1 finalpath stdoutfile stderrfile)"

text \<open>\<open>timeout\<close> is \<^verbatim>\<open>j.GetTimeout()\<close> of the job \<^verbatim>\<open>j\<close>.\<close>

definition Connection_UploadExecuteAndDelete ::
  "world \<Rightarrow> connection \<Rightarrow> int \<Rightarrow> string \<Rightarrow> string \<Rightarrow> string \<Rightarrow> run outcome" where
  "Connection_UploadExecuteAndDelete w c timeout scriptsrc tmpname logdir =
     (case os_Stat w scriptsrc of
        Some e \<Rightarrow>
          finish [] True
            (Some (ErrorsNew (''problem locating file '' @ scriptsrc @ '': '' @ error_Error w e)))
      | None \<Rightarrow>
     (case os_Stat w logdir of
        Some e \<Rightarrow>
          finish [] True
            (Some (ErrorsNew (''problem locating logdir '' @ logdir @ '': '' @ error_Error w e)))
      | None \<Rightarrow>
     (case NewRenderer w ''windows'' of Some e \<Rightarrow> finish [] True (Some e) | None \<Rightarrow>
     (case NewRenderer w ''linux'' of Some e \<Rightarrow> finish [] True (Some e) | None \<Rightarrow>
     (case NewRenderer w [] of Some e \<Rightarrow> finish [] True (Some e) | None \<Rightarrow>
        (let filename = (if tmpname \<noteq> [] then tmpname else currfp_Base w scriptsrc);
             logfilename = strings_Remove filename (currfp_Ext w filename);
             logprefix = currfp_Join w logdir logfilename;
             stdoutfile = logprefix @ ''.stdout.log'';
             stderrfile = logprefix @ ''.stderr.log''
         in if Connection_IsWinRM c
            then UploadExecuteAndDelete_WinRM w c timeout scriptsrc filename stdoutfile stderrfile
            else UploadExecuteAndDelete_SSH w c timeout scriptsrc filename stdoutfile stderrfile))))))"

section \<open>Helper methods of Metadata\<close>

definition Metadata_TypeByPath :: "'d metadata \<Rightarrow> lFType outcome" where
  "Metadata_TypeByPath m = TypeByPath (Metadata_ID m)"

definition Metadata_IsGlobalType :: "'d metadata \<Rightarrow> bool outcome" where
  "Metadata_IsGlobalType m = IsGlobalType (Metadata_ID m)"

section \<open>Notions used to state the properties\<close>

text \<open>
  A proper path element: not empty, without a slash, and neither \<^verbatim>\<open>.\<close> nor \<^verbatim>\<open>..\<close>; and the
  absolute path made of a list of elements, \<^verbatim>\<open>/e1/e2/.../en\<close>.
\<close>

definition real_comp :: "string \<Rightarrow> bool" where
  "real_comp c = (c \<noteq> [] \<and> slash \<notin> set c \<and> c \<noteq> [dot] \<and> c \<noteq> [dot, dot])"

definition abs_path :: "string list \<Rightarrow> string" where
  "abs_path comps = concat (map (\<lambda>c. slash # c) comps)"

text \<open>Go's zero values of the structs (\<^verbatim>\<open>Network{}\<close> and so on): concrete inputs are built from them.\<close>

definition zero_network :: network where
  "zero_network =
     \<lparr>Network_Formatable = None, Network_ID = [], Network_Name = [], Network_CIDR = [],
      Network_VDIVisible = False, Network_Vars = Mapping.empty, Network_Tags = Mapping.empty,
      Network_OnConflict = None, Network_Caller = Caller 0\<rparr>"

definition zero_dNSRecord :: dNSRecord where
  "zero_dNSRecord =
     \<lparr>DNSRecord_Formatable = None, DNSRecord_ID = [], DNSRecord_Name = [], DNSRecord_Values = [],
      DNSRecord_Type = [], DNSRecord_Zone = [], DNSRecord_Vars = Mapping.empty,
      DNSRecord_Tags = Mapping.empty, DNSRecord_Disabled = False, DNSRecord_OnConflict = None,
      DNSRecord_Caller = Caller 0\<rparr>"

definition zero_command :: command where
  "zero_command =
     \<lparr>Command_Formatable = None, Command_ID = [], Command_Name = [], Command_Description = [],
      Command_Program = [], Command_Args = [], Command_IgnoreErrors = False, Command_Cooldown = 0,
      Command_IO = None, Command_Disabled = False, Command_Vars = Mapping.empty,
      Command_Tags = Mapping.empty, Command_OnConflict = None, Command_Maintainer = None,
      Command_Caller = Caller 0\<rparr>"

definition zero_remoteFile :: remoteFile where
  "zero_remoteFile =
     \<lparr>RemoteFile_Formatable = None, RemoteFile_ID = [], RemoteFile_SourceType = [],
      RemoteFile_Source = [], RemoteFile_Destination = [], RemoteFile_Vars = Mapping.empty,
      RemoteFile_Tags = Mapping.empty, RemoteFile_Template = False, RemoteFile_Perms = [],
      RemoteFile_Disabled = False, RemoteFile_OnConflict = None, RemoteFile_MD5 = [],
      RemoteFile_Caller = Caller 0, RemoteFile_AbsPath = [], RemoteFile_Ext = []\<rparr>"

definition zero_provisionedNetwork :: provisionedNetwork where
  "zero_provisionedNetwork =
     \<lparr>ProvisionedNetwork_Formatable = None, ProvisionedNetwork_ID = [], ProvisionedNetwork_Name = [],
      ProvisionedNetwork_CIDR = [], ProvisionedNetwork_NetworkID = [],
      ProvisionedNetwork_ProvisionedHosts = Mapping.empty, ProvisionedNetwork_Status = Status 0,
      ProvisionedNetwork_Network = None, ProvisionedNetwork_Team = None,
      ProvisionedNetwork_Build = None, ProvisionedNetwork_Environment = None,
      ProvisionedNetwork_Competition = None, ProvisionedNetwork_OnConflict = None,
      ProvisionedNetwork_Caller = Caller 0, ProvisionedNetwork_Dir = []\<rparr>"

definition zero_provisioningStep :: provisioningStep where
  "zero_provisioningStep =
     \<lparr>ProvisioningStep_Formatable = None, ProvisioningStep_ID = [],
      ProvisioningStep_ProvisionerID = [], ProvisioningStep_ProvisionerType = [],
      ProvisioningStep_StepNumber = 0, ProvisioningStep_Status = [],
      ProvisioningStep_ProvisionedHost = None, ProvisioningStep_ProvisionedNetwork = None,
      ProvisioningStep_Host = None, ProvisioningStep_Network = None, ProvisioningStep_Team = None,
      ProvisioningStep_Build = None, ProvisioningStep_Environment = None,
      ProvisioningStep_Competition = None, ProvisioningStep_Provisioner = None,
      ProvisioningStep_Script = None, ProvisioningStep_Command = None,
      ProvisioningStep_RemoteFile = None, ProvisioningStep_DNSRecord = None,
      ProvisioningStep_OnConflict = None, ProvisioningStep_Caller = Caller 0,
      ProvisioningStep_Dir = []\<rparr>"

definition zero_connection :: connection where
  "zero_connection =
     \<lparr>Connection_ID = [], Connection_Active = False, Connection_LocalAddr = [],
      Connection_RemoteAddr = [], Connection_ResourceName = [], Connection_SSHAuthConfig = None,
      Connection_WinRMAuthConfig = None, Connection_Revision = 0, Connection_OnConflict = None,
      Connection_Competition = None, Connection_Environment = None, Connection_Build = None,
      Connection_Team = None, Connection_Network = None, Connection_Host = None,
      Connection_ProvisionedHost = None, Connection_ProvisionedNetwork = None,
      Connection_Caller = Caller 0\<rparr>"

definition zero_metadata :: "'d metadata" where
  "zero_metadata =
     \<lparr>Metadata_Formatable = None, Metadata_Dependency = None, Metadata_ID = [],
      Metadata_ObjectType = [], Metadata_Created = False, Metadata_Tainted = False,
      Metadata_Addition = False, Metadata_Checksum = 0, Metadata_CreatedAt = Time 0,
      Metadata_ModifiedAt = Time 0, Metadata_Resources = []\<rparr>"

definition empty_heaps :: heaps where
  "empty_heaps =
     \<lparr>heap_Network = Map.empty, heap_DNSRecord = Map.empty, heap_Command = Map.empty,
      heap_RemoteFile = Map.empty, heap_ProvisioningStep = Map.empty,
      heap_ProvisionedNetwork = Map.empty, heap_Connection = Map.empty\<rparr>"

text \<open>
  Surroundings for concrete inputs.  In \<open>bare_ext\<close> no file can be read, the hashes of the
  kinds not at hand are 1, and the paths of a team and of a provisioned host are fixed.  In
  \<open>fake_world upload\<close>, the fake transport of the end-to-end scenarios, every call succeeds
  except the SFTP upload, which returns \<open>upload\<close>; the timeout helper hands back what the
  step sent, unchanged; every script has the extension \<^verbatim>\<open>.sh\<close>.
\<close>

definition bare_ext :: ext where
  "bare_ext =
     \<lparr>HashConfigMap = (\<lambda>_. Returns 1), Team_Hash = (\<lambda>_. Returns 1),
      Team_Path = (\<lambda>_. Returns ''/envs/ctf/b1/teams/t1''), Status_Hash = (\<lambda>_. Returns 1),
      Script_Hash = (\<lambda>_. Returns 1), Script_Base = (\<lambda>_. Returns ''setup''),
      SSHAuthConfig_Hash = (\<lambda>_. Returns 1), WinRMAuthConfig_Hash = (\<lambda>_. Returns 1),
      ProvisionedHost_Path = (\<lambda>_. Returns ''/envs/ctf/b1/teams/t1/networks/dmz/hosts/web01''),
      ProvisionedHost_LaforgeID = (\<lambda>_. Returns ''/envs/ctf/b1/teams/t1/networks/dmz/hosts/web01''),
      ReadFile = (\<lambda>_. None)\<rparr>"

definition fake_world :: "error option \<Rightarrow> world" where
  "fake_world upload =
     \<lparr>os_Stat = (\<lambda>_. None), os_IsDir = (\<lambda>_. False), os_OpenFile = (\<lambda>_. None),
      error_Error = (\<lambda>_. []), NewRenderer = (\<lambda>_. None),
      currfp_Base = path_Base, currfp_Ext = (\<lambda>_. ''.sh''),
      currfp_Join = (\<lambda>a b. path_Join [a, b]), winfp_Join = (\<lambda>a b. a @ CHR 0x5C # b),
      nixfp_Join = (\<lambda>a b. path_Join [a, b]),
      PerformInTimeout = (\<lambda>_ sent. sent), NewTimeoutExtension = (\<lambda>e. e),
      NewSSHClient = (\<lambda>_. None), client_Connect = None,
      client_UploadScriptV2 = (\<lambda>_ _. upload), client_Start = (\<lambda>_. None),
      cmd_Wait = (\<lambda>_. None), client_DeleteScriptV2 = (\<lambda>_. None),
      winrm_Upload = (\<lambda>_ _. None), winrm_Execute = (\<lambda>_. None),
      ProvisionedHost_Host = (\<lambda>_. Some (Host 0))\<rparr>"

section \<open>Verification\<close>

subsection \<open>ValidateGenericPath\<close>

lemma genericPathRegexp_MatchString_iff:
  "genericPathRegexp_MatchString p \<longleftrightarrow>
     (\<exists>body c. p = slash # body @ [c] \<and> 3 \<le> length body \<and> list_all class_body body \<and> class_last c)"
proof
  assume m: "genericPathRegexp_MatchString p"
  then obtain rest where p: "p = slash # rest" and len: "4 \<le> length rest"
    and body: "list_all class_body (butlast rest)" and lst: "class_last (last rest)"
    by (auto simp: genericPathRegexp_MatchString_def split: list.splits)
  from len have "rest \<noteq> []" by auto
  then have "rest = butlast rest @ [last rest]" by simp
  with p len body lst show "\<exists>body c. p = slash # body @ [c] \<and> 3 \<le> length body \<and> list_all class_body body \<and> class_last c"
    by (intro exI[of _ "butlast rest"] exI[of _ "last rest"]) auto
next
  assume "\<exists>body c. p = slash # body @ [c] \<and> 3 \<le> length body \<and> list_all class_body body \<and> class_last c"
  then show "genericPathRegexp_MatchString p"
    by (auto simp: genericPathRegexp_MatchString_def)
qed

lemma consecutiveSlashRegexp_MatchString_iff:
  "consecutiveSlashRegexp_MatchString p \<longleftrightarrow> (\<exists>xs ys. p = xs @ slash # slash # ys)"
proof (induction p rule: consecutiveSlashRegexp_MatchString.induct)
  case (1 a b cs)
  show ?case
  proof
    assume "consecutiveSlashRegexp_MatchString (a # b # cs)"
    then consider "a = slash \<and> b = slash" | "consecutiveSlashRegexp_MatchString (b # cs)" by auto
    then show "\<exists>xs ys. a # b # cs = xs @ slash # slash # ys"
    proof cases
      case 1
      then have "a # b # cs = [] @ slash # slash # cs" by simp
      then show ?thesis by blast
    next
      case 2
      with 1 obtain xs ys where "b # cs = xs @ slash # slash # ys" by auto
      then have "a # b # cs = (a # xs) @ slash # slash # ys" by simp
      then show ?thesis by blast
    qed
  next
    assume "\<exists>xs ys. a # b # cs = xs @ slash # slash # ys"
    then obtain xs ys where e: "a # b # cs = xs @ slash # slash # ys" by blast
    show "consecutiveSlashRegexp_MatchString (a # b # cs)"
    proof (cases xs)
      case Nil
      with e show ?thesis by simp
    next
      case (Cons x xs')
      with e have "b # cs = xs' @ slash # slash # ys" by simp
      with 1 have "consecutiveSlashRegexp_MatchString (b # cs)" by blast
      then show ?thesis by simp
    qed
  qed
qed (auto simp: Cons_eq_append_conv)

lemma invalid_char_no_match:
  assumes "c \<in> set p" and "\<not> class_body c"
  shows "\<not> genericPathRegexp_MatchString p"
proof
  assume "genericPathRegexp_MatchString p"
  then obtain body l where p: "p = slash # body @ [l]" and b: "list_all class_body body" and l: "class_last l"
    by (auto simp: genericPathRegexp_MatchString_iff)
  have "class_body slash" by (simp add: class_body_def)
  moreover have "class_body l" using l by (auto simp: class_body_def class_last_def)
  ultimately have "list_all class_body p" using p b by simp
  with assms show False by (auto simp: list_all_iff)
qed

text \<open>
  Claim C6, as the code has it.  \<open>ValidateGenericPath\<close> returns no error exactly for the
  paths that match the generic syntax \<^verbatim>\<open>^\/[a-z0-9\-\/]{3,}[a-z0-9]$\<close> and have no two
  slashes in a row; it returns \<open>ErrPathContainsDuplicateSlash\<close> exactly for the paths that
  match the generic syntax and have two slashes in a row; an empty path and a path with an
  upper-case or otherwise disallowed character get \<open>ErrPathContainsInvalidChars\<close>; and the
  three sample paths are accepted.
\<close>

theorem ValidateGenericPath_cases:
  "(ValidateGenericPath p = None \<longleftrightarrow>
      genericPathRegexp_MatchString p \<and> \<not> consecutiveSlashRegexp_MatchString p)
   \<and> (ValidateGenericPath p = Some ErrPathContainsDuplicateSlash \<longleftrightarrow>
      genericPathRegexp_MatchString p \<and> consecutiveSlashRegexp_MatchString p)
   \<and> (p = [] \<or> (\<exists>c \<in> set p. \<not> class_body c) \<longrightarrow>
      ValidateGenericPath p = Some ErrPathContainsInvalidChars)
   \<and> ValidateGenericPath ''/commands/recon-script'' = None
   \<and> ValidateGenericPath ''/networks/dmz'' = None
   \<and> ValidateGenericPath ''/envs/ctf2024/build1/teams/team-01/networks/dmz'' = None"
proof -
  have a: "ValidateGenericPath p = None \<longleftrightarrow>
      genericPathRegexp_MatchString p \<and> \<not> consecutiveSlashRegexp_MatchString p"
    by (simp add: ValidateGenericPath_def)
  have b: "ValidateGenericPath p = Some ErrPathContainsDuplicateSlash \<longleftrightarrow>
      genericPathRegexp_MatchString p \<and> consecutiveSlashRegexp_MatchString p"
    by (simp add: ValidateGenericPath_def)
  have c: "p = [] \<or> (\<exists>c \<in> set p. \<not> class_body c) \<longrightarrow>
      ValidateGenericPath p = Some ErrPathContainsInvalidChars"
    using invalid_char_no_match [of _ p]
    by (auto simp: ValidateGenericPath_def genericPathRegexp_MatchString_def)
  have d: "ValidateGenericPath ''/commands/recon-script'' = None" by code_simp
  have e: "ValidateGenericPath ''/networks/dmz'' = None" by code_simp
  have f: "ValidateGenericPath ''/envs/ctf2024/build1/teams/team-01/networks/dmz'' = None" by code_simp
  from a b c d e f show ?thesis by blast
qed

theorem ValidateGenericPath_cases_witness:
  "ValidateGenericPath ''/a//b'' = Some ErrPathContainsDuplicateSlash
   \<and> genericPathRegexp_MatchString ''/a//b'' \<and> consecutiveSlashRegexp_MatchString ''/a//b''
   \<and> (\<exists>c \<in> set ''/Networks/dmz''. \<not> class_body c)
   \<and> ValidateGenericPath ''/Networks/dmz'' = Some ErrPathContainsInvalidChars
   \<and> ValidateGenericPath [] = Some ErrPathContainsInvalidChars"
proof -
  have m: "genericPathRegexp_MatchString ''/a//b''" by code_simp
  have s: "consecutiveSlashRegexp_MatchString ''/a//b''" by code_simp
  have u: "\<exists>c \<in> set ''/Networks/dmz''. \<not> class_body c" by code_simp
  from m s u ValidateGenericPath_cases [of "''/a//b''"] ValidateGenericPath_cases [of "''/Networks/dmz''"]
    ValidateGenericPath_cases [of "[]"]
  show ?thesis by blast
qed

text \<open>
  The claim as it was stated fails at \<^verbatim>\<open>//ab\<close>: it has two slashes in a row, only allowed
  characters and no trailing slash, and is rejected for its characters, the generic syntax
  being tested first.
\<close>

theorem ValidateGenericPath_short_double_slash:
  "consecutiveSlashRegexp_MatchString ''//ab''
   \<and> list_all class_body ''//ab'' \<and> last ''//ab'' \<noteq> slash
   \<and> ValidateGenericPath ''//ab'' = Some ErrPathContainsInvalidChars
   \<and> ValidateGenericPath ''//ab'' \<noteq> Some ErrPathContainsDuplicateSlash"
  by code_simp

text \<open>
  \<open>ErrPathEndsInSlash\<close> is declared and never returned: a trailing slash fails the generic
  syntax.
\<close>

lemma ValidateGenericPath_never_EndsInSlash:
  "ValidateGenericPath p \<noteq> Some ErrPathEndsInSlash"
  by (simp add: ValidateGenericPath_def)

lemma not_class_last_slash: "\<not> class_last slash"
  by (simp add: class_last_def is_lower_def is_digit_def slash_def)

lemma ValidateGenericPath_trailing_slash:
  assumes "p \<noteq> []" and "last p = slash"
  shows "ValidateGenericPath p = Some ErrPathContainsInvalidChars"
proof -
  have "\<not> genericPathRegexp_MatchString p"
  proof
    assume "genericPathRegexp_MatchString p"
    then obtain body c where "p = slash # body @ [c]" and "class_last c"
      by (auto simp: genericPathRegexp_MatchString_iff)
    with assms(2) show False by (simp add: not_class_last_slash)
  qed
  then show ?thesis by (simp add: ValidateGenericPath_def)
qed

subsection \<open>TypeByPath and IsGlobalType\<close>

lemma strings_Split_nonempty: "strings_Split p sep \<noteq> []"
  by (induction p) (auto split: list.splits)

lemma strings_Split_abs: "\<exists>e1 es. strings_Split (slash # cs) slash = [] # e1 # es"
  using strings_Split_nonempty [of cs slash] by (cases "strings_Split cs slash") auto

lemma index1_Split_abs: "path_IsAbs p \<Longrightarrow> \<exists>e1. index1 (strings_Split p slash) = Returns e1"
proof -
  assume "path_IsAbs p"
  then obtain cs where "p = slash # cs"
    by (auto simp: path_IsAbs_def split: list.splits)
  with strings_Split_abs [of cs] show ?thesis
    by (auto simp: index1_def)
qed

lemma TypeByPath_returns: "\<exists>t. TypeByPath p = Returns t"
proof (cases "path_IsAbs p")
  case False
  then show ?thesis by (simp add: TypeByPath_def)
next
  case True
  then obtain e1 where "index1 (strings_Split p slash) = Returns e1"
    using index1_Split_abs by blast
  with True show ?thesis by (simp add: TypeByPath_def Let_def)
qed

lemma returns_if:
  "\<exists>b. A = Returns b \<Longrightarrow> \<exists>b. B = Returns b \<Longrightarrow> \<exists>b. (if c then A else B) = Returns b"
  by simp

lemma IsGlobalType_returns: "\<exists>b. IsGlobalType p = Returns b"
proof -
  obtain t where t: "TypeByPath p = Returns t" using TypeByPath_returns by blast
  show ?thesis
    unfolding IsGlobalType_def t obind.simps
    by (intro returns_if) blast+
qed

text \<open>
  Claim C10.  For every path that does not begin with a slash, the empty path included,
  \<open>TypeByPath\<close> returns \<open>LFTypeCompetition\<close>, not \<open>LFTypeUnknown\<close>, and \<open>IsGlobalType\<close>
  returns true; so a \<open>Metadata\<close> whose \<open>ID\<close> was never assigned is classified as a global
  competition object.
\<close>

theorem TypeByPath_not_absolute:
  "(p = [] \<or> hd p \<noteq> CHR ''/'' \<longrightarrow>
      TypeByPath p = Returns LFTypeCompetition \<and> TypeByPath p \<noteq> Returns LFTypeUnknown
      \<and> IsGlobalType p = Returns True)
   \<and> (Metadata_ID m = [] \<longrightarrow>
      Metadata_TypeByPath m = Returns LFTypeCompetition \<and> Metadata_IsGlobalType m = Returns True)"
proof -
  have a: "TypeByPath q = Returns LFTypeCompetition \<and> TypeByPath q \<noteq> Returns LFTypeUnknown
      \<and> IsGlobalType q = Returns True" if "q = [] \<or> hd q \<noteq> CHR ''/''" for q
  proof -
    from that have "\<not> path_IsAbs q"
      by (auto simp: path_IsAbs_def slash_def split: list.splits)
    then have "TypeByPath q = Returns LFTypeCompetition"
      by (simp add: TypeByPath_def)
    then show ?thesis
      by (simp add: IsGlobalType_def LFTypeCompetition_def LFTypeUnknown_def)
  qed
  from a [of p] a [of "[]"] show ?thesis
    by (auto simp: Metadata_TypeByPath_def Metadata_IsGlobalType_def)
qed

theorem TypeByPath_not_absolute_witness:
  "hd ''envs/ctf'' \<noteq> CHR ''/'' \<and> TypeByPath ''envs/ctf'' = Returns LFTypeCompetition
   \<and> IsGlobalType ''envs/ctf'' = Returns True
   \<and> TypeByPath [] = Returns LFTypeCompetition \<and> IsGlobalType [] = Returns True
   \<and> Metadata_ID (zero_metadata :: unit metadata) = []
   \<and> Metadata_IsGlobalType (zero_metadata :: unit metadata) = Returns True"
proof -
  have h: "hd ''envs/ctf'' \<noteq> CHR ''/''" by simp
  have z: "Metadata_ID (zero_metadata :: unit metadata) = []" by (simp add: zero_metadata_def)
  from h z TypeByPath_not_absolute [of "''envs/ctf''" "zero_metadata :: unit metadata"]
    TypeByPath_not_absolute [of "[]" "zero_metadata :: unit metadata"]
  show ?thesis by blast
qed

subsection \<open>Metadata: the memoized checksum\<close>

text \<open>
  Claim C3.  A \<open>Metadata\<close> with a non-zero stored checksum answers \<open>Hash\<close> with that value,
  unchanged and without a call of the \<open>Dependency\<close>'s \<open>Hash\<close>; so after \<open>CalculateChecksum\<close>
  has stored a non-zero checksum this holds whatever the wrapped object has become and
  whatever it would hash to now.  With a zero stored checksum \<open>Hash\<close> calls the \<open>Dependency\<close>'s
  \<open>Hash\<close> once and stores and returns its result.  \<open>Hash\<close> calls the \<open>Dependency\<close> exactly
  when the stored checksum is zero.
\<close>

theorem Metadata_Hash_memoized:
  "(Metadata_Checksum m \<noteq> 0 \<longrightarrow> Metadata_Hash dhash m = Returns (Metadata_Checksum m, m, []))
   \<and> (Metadata_CalculateChecksum dhash m = Returns (m1, calls1) \<and> Metadata_Checksum m1 \<noteq> 0 \<longrightarrow>
        (\<forall>dhash' d'. Metadata_Hash dhash' (m1\<lparr>Metadata_Dependency := d'\<rparr>)
           = Returns (Metadata_Checksum m1, m1\<lparr>Metadata_Dependency := d'\<rparr>, [])))
   \<and> (Metadata_Checksum m = 0 \<and> Metadata_Dependency m = Some d \<and> dhash d = Returns h \<longrightarrow>
        Metadata_Hash dhash m = Returns (h, m\<lparr>Metadata_Checksum := h\<rparr>, [d]))
   \<and> (Metadata_Hash dhash m = Returns (h', m', calls) \<longrightarrow>
        (calls \<noteq> [] \<longleftrightarrow> Metadata_Checksum m = 0))"
proof -
  have a: "Metadata_Checksum m \<noteq> 0 \<longrightarrow> Metadata_Hash dhash m = Returns (Metadata_Checksum m, m, [])"
    by (simp add: Metadata_Hash_def)
  have b: "Metadata_CalculateChecksum dhash m = Returns (m1, calls1) \<and> Metadata_Checksum m1 \<noteq> 0 \<longrightarrow>
        (\<forall>dhash' d'. Metadata_Hash dhash' (m1\<lparr>Metadata_Dependency := d'\<rparr>)
           = Returns (Metadata_Checksum m1, m1\<lparr>Metadata_Dependency := d'\<rparr>, []))"
    by (simp add: Metadata_Hash_def)
  have c: "Metadata_Checksum m = 0 \<and> Metadata_Dependency m = Some d \<and> dhash d = Returns h \<longrightarrow>
        Metadata_Hash dhash m = Returns (h, m\<lparr>Metadata_Checksum := h\<rparr>, [d])"
    by (simp add: Metadata_Hash_def Metadata_CalculateChecksum_def)
  have d: "Metadata_Hash dhash m = Returns (h', m', calls) \<longrightarrow>
        (calls \<noteq> [] \<longleftrightarrow> Metadata_Checksum m = 0)"
  proof (cases "Metadata_Checksum m = 0")
    case False
    then show ?thesis by (auto simp: Metadata_Hash_def)
  next
    case True
    show ?thesis
    proof (cases "Metadata_Dependency m")
      case None
      with True show ?thesis by (simp add: Metadata_Hash_def Metadata_CalculateChecksum_def)
    next
      case (Some dep)
      with True show ?thesis
        by (cases "dhash dep") (auto simp: Metadata_Hash_def Metadata_CalculateChecksum_def)
    qed
  qed
  from a b c d show ?thesis by blast
qed

theorem Metadata_Hash_memoized_witness:
  "Metadata_CalculateChecksum Returns (zero_metadata\<lparr>Metadata_Dependency := Some 7\<rparr>)
     = Returns (zero_metadata\<lparr>Metadata_Dependency := Some 7, Metadata_Checksum := 7\<rparr>, [7])
   \<and> Metadata_Hash Returns (zero_metadata\<lparr>Metadata_Dependency := Some 9, Metadata_Checksum := 7\<rparr>)
     = Returns (7, zero_metadata\<lparr>Metadata_Dependency := Some 9, Metadata_Checksum := 7\<rparr>, [])
   \<and> Metadata_Hash Returns (zero_metadata\<lparr>Metadata_Dependency := Some 9\<rparr>)
     = Returns (9, zero_metadata\<lparr>Metadata_Dependency := Some 9, Metadata_Checksum := 9\<rparr>, [9])"
proof -
  let ?m = "zero_metadata\<lparr>Metadata_Dependency := Some (7::u64)\<rparr>"
  let ?m1 = "zero_metadata\<lparr>Metadata_Dependency := Some (7::u64), Metadata_Checksum := 7\<rparr>"
  let ?n = "zero_metadata\<lparr>Metadata_Dependency := Some (9::u64)\<rparr>"
  have calc: "Metadata_CalculateChecksum Returns ?m = Returns (?m1, [7])"
    by (simp add: Metadata_CalculateChecksum_def zero_metadata_def)
  have nz: "Metadata_Checksum ?m1 \<noteq> 0" by simp
  have z: "Metadata_Checksum ?n = 0 \<and> Metadata_Dependency ?n = Some 9 \<and> Returns (9::u64) = Returns 9"
    by (simp add: zero_metadata_def)
  from Metadata_Hash_memoized [of ?m Returns ?m1 "[7]" 7 7 7 ?m "[]"] calc nz
  have "Metadata_Hash Returns (?m1\<lparr>Metadata_Dependency := Some 9\<rparr>)
     = Returns (Metadata_Checksum ?m1, ?m1\<lparr>Metadata_Dependency := Some 9\<rparr>, [])"
    by blast
  moreover from Metadata_Hash_memoized [of ?n Returns ?m1 "[]" 9 9 9 ?n "[]"] z
  have "Metadata_Hash Returns ?n = Returns (9, ?n\<lparr>Metadata_Checksum := 9\<rparr>, [9])"
    by blast
  ultimately show ?thesis using calc by (simp add: zero_metadata_def)
qed

subsection \<open>Metadata: Label\<close>

text \<open>
  Claim C9, as the code has it.  \<open>Label\<close> panics exactly when the \<open>Dependency\<close> is nil, and
  returns a string for every \<open>Metadata\<close> with a \<open>Dependency\<close>.  It is not the only panic:
  with a nil \<open>Dependency\<close>, \<open>CalculateChecksum\<close> panics, and so does \<open>Hash\<close> when the stored
  checksum is zero.  Classifying a path never panics.
\<close>

theorem Metadata_Label_panics:
  "(Metadata_Label m = Panics \<longleftrightarrow> Metadata_Dependency m = None)
   \<and> (Metadata_Dependency m \<noteq> None \<longrightarrow> (\<exists>s. Metadata_Label m = Returns s))
   \<and> (Metadata_Dependency m = None \<longrightarrow> Metadata_CalculateChecksum dhash m = Panics)
   \<and> (Metadata_Dependency m = None \<and> Metadata_Checksum m = 0 \<longrightarrow> Metadata_Hash dhash m = Panics)
   \<and> (\<exists>t. TypeByPath p = Returns t) \<and> (\<exists>b. IsGlobalType p = Returns b)"
  using TypeByPath_returns [of p] IsGlobalType_returns [of p]
  by (simp add: Metadata_Label_def Metadata_CalculateChecksum_def Metadata_Hash_def)

theorem Metadata_Label_panics_witness:
  "Metadata_Label (zero_metadata :: unit metadata) = Panics
   \<and> (\<exists>s. Metadata_Label (zero_metadata\<lparr>Metadata_Dependency := Some ()\<rparr>) = Returns s)
   \<and> Metadata_CalculateChecksum Returns (zero_metadata :: u64 metadata) = Panics"
proof -
  have n: "Metadata_Dependency (zero_metadata :: 'a metadata) = None"
    by (simp add: zero_metadata_def)
  have s: "Metadata_Dependency (zero_metadata\<lparr>Metadata_Dependency := Some ()\<rparr>) \<noteq> None"
    by simp
  from n Metadata_Label_panics [of "zero_metadata :: unit metadata" "\<lambda>_. Panics" "[]"]
  have 1: "Metadata_Label (zero_metadata :: unit metadata) = Panics" by blast
  from s Metadata_Label_panics [of "zero_metadata\<lparr>Metadata_Dependency := Some ()\<rparr>" "\<lambda>_. Panics" "[]"]
  have 2: "\<exists>s. Metadata_Label (zero_metadata\<lparr>Metadata_Dependency := Some ()\<rparr>) = Returns s" by blast
  from n Metadata_Label_panics [of "zero_metadata :: u64 metadata" Returns "[]"]
  have 3: "Metadata_CalculateChecksum Returns (zero_metadata :: u64 metadata) = Panics" by blast
  from 1 2 3 show ?thesis by blast
qed

text \<open>
  The claim as it was stated fails: \<open>Label\<close> is not the only call that panics.  \<open>Hash\<close> on the
  zero \<open>Metadata\<close> (no \<open>Dependency\<close>, no checksum yet) calls a method of a nil interface.
\<close>

theorem Metadata_Hash_nil_Dependency_panics:
  "Metadata_Hash Returns (zero_metadata :: u64 metadata) = Panics"
  by (simp add: Metadata_Hash_def Metadata_CalculateChecksum_def zero_metadata_def)

subsection \<open>RemoteFile: the unreadable asset\<close>

lemma Provisioner_Hash_RemoteFile:
  "Provisioner_Hash x (PRemoteFile (Some r)) = Returns (RemoteFile_Hash x r)"
  by (simp add: Provisioner_Hash_def)

text \<open>
  Claim C7.  When the file at \<open>AbsPath\<close> cannot be read, \<open>ResourceHash\<close> returns 666, which is
  not zero, whatever the file; \<open>Hash\<close> still returns a checksum, and so does the \<open>Hash\<close> of a
  provisioning step around such a file; and two \<open>RemoteFile\<close>s that differ only in their
  unreadable asset (\<open>AbsPath\<close>) have the same checksum.
\<close>

theorem RemoteFile_unreadable_sentinel:
  assumes "ReadFile x (RemoteFile_AbsPath r) = None"
  shows "RemoteFile_ResourceHash x r = 666 \<and> RemoteFile_ResourceHash x r \<noteq> 0
    \<and> (\<exists>h. RemoteFile_Hash x r = h
          \<and> Provisioner_Hash x (PRemoteFile (Some r)) = Returns h
          \<and> (\<forall>p. ProvisioningStep_Provisioner p = Some (PRemoteFile (Some r)) \<longrightarrow>
                (\<exists>h'. ProvisioningStep_Hash x p = Returns h')))
    \<and> (\<forall>path'. ReadFile x path' = None \<longrightarrow>
          RemoteFile_ResourceHash x (r\<lparr>RemoteFile_AbsPath := path'\<rparr>) = RemoteFile_ResourceHash x r
          \<and> RemoteFile_Hash x (r\<lparr>RemoteFile_AbsPath := path'\<rparr>) = RemoteFile_Hash x r)"
proof -
  have s: "RemoteFile_ResourceHash x r = 666"
    using assms by (simp add: RemoteFile_ResourceHash_def)
  have nz: "RemoteFile_ResourceHash x r \<noteq> 0"
    using s by simp
  have c: "\<forall>p. ProvisioningStep_Provisioner p = Some (PRemoteFile (Some r)) \<longrightarrow>
                (\<exists>h'. ProvisioningStep_Hash x p = Returns h')"
    by (simp add: ProvisioningStep_Hash_def Provisioner_Hash_def)
  have e: "\<forall>path'. ReadFile x path' = None \<longrightarrow>
          RemoteFile_ResourceHash x (r\<lparr>RemoteFile_AbsPath := path'\<rparr>) = RemoteFile_ResourceHash x r
          \<and> RemoteFile_Hash x (r\<lparr>RemoteFile_AbsPath := path'\<rparr>) = RemoteFile_Hash x r"
    using s by (simp add: RemoteFile_Hash_def RemoteFile_ResourceHash_def)
  from s nz c e show ?thesis
    by (simp add: Provisioner_Hash_def)
qed

theorem RemoteFile_unreadable_sentinel_witness:
  "ReadFile bare_ext (RemoteFile_AbsPath (zero_remoteFile\<lparr>RemoteFile_AbsPath := ''/assets/a.sh''\<rparr>)) = None
   \<and> ReadFile bare_ext ''/assets/b.sh'' = None
   \<and> RemoteFile_ResourceHash bare_ext (zero_remoteFile\<lparr>RemoteFile_AbsPath := ''/assets/a.sh''\<rparr>) = 666
   \<and> RemoteFile_Hash bare_ext (zero_remoteFile\<lparr>RemoteFile_AbsPath := ''/assets/b.sh''\<rparr>)
     = RemoteFile_Hash bare_ext (zero_remoteFile\<lparr>RemoteFile_AbsPath := ''/assets/a.sh''\<rparr>)"
proof -
  let ?a = "zero_remoteFile\<lparr>RemoteFile_AbsPath := ''/assets/a.sh''\<rparr>"
  have ha: "ReadFile bare_ext (RemoteFile_AbsPath ?a) = None" by (simp add: bare_ext_def)
  have hb: "ReadFile bare_ext ''/assets/b.sh'' = None" by (simp add: bare_ext_def)
  have u: "?a\<lparr>RemoteFile_AbsPath := ''/assets/b.sh''\<rparr> = zero_remoteFile\<lparr>RemoteFile_AbsPath := ''/assets/b.sh''\<rparr>"
    by simp
  from RemoteFile_unreadable_sentinel [OF ha] hb
  have "RemoteFile_ResourceHash bare_ext ?a = 666
    \<and> RemoteFile_Hash bare_ext (?a\<lparr>RemoteFile_AbsPath := ''/assets/b.sh''\<rparr>) = RemoteFile_Hash bare_ext ?a"
    by blast
  with ha hb u show ?thesis by simp
qed

subsection \<open>Hash and the identity fields\<close>

text \<open>
  Claim C1, as the code has it.  The \<open>Hash\<close> of a \<open>Network\<close>, \<open>DNSRecord\<close>, \<open>Command\<close>,
  \<open>RemoteFile\<close>, \<open>ProvisioningStep\<close> or \<open>ProvisionedNetwork\<close> does not depend on the fields
  \<open>ID\<close> and \<open>Caller\<close>: two instances that differ only there get the same checksum (or panic
  alike).  The \<open>Hash\<close> of a \<open>Connection\<close> does not depend on \<open>Caller\<close>.
\<close>

theorem Hash_ignores_ID_and_Caller:
  "Network_Hash x (n\<lparr>Network_ID := i, Network_Caller := ca\<rparr>) = Network_Hash x n
   \<and> DNSRecord_Hash (d\<lparr>DNSRecord_ID := i, DNSRecord_Caller := ca\<rparr>) = DNSRecord_Hash d
   \<and> Command_Hash (c\<lparr>Command_ID := i, Command_Caller := ca\<rparr>) = Command_Hash c
   \<and> RemoteFile_Hash x (f\<lparr>RemoteFile_ID := i, RemoteFile_Caller := ca\<rparr>) = RemoteFile_Hash x f
   \<and> ProvisioningStep_Hash x (s\<lparr>ProvisioningStep_ID := i, ProvisioningStep_Caller := ca\<rparr>)
       = ProvisioningStep_Hash x s
   \<and> ProvisionedNetwork_Hash x (pn\<lparr>ProvisionedNetwork_ID := i, ProvisionedNetwork_Caller := ca\<rparr>)
       = ProvisionedNetwork_Hash x pn
   \<and> Connection_Hash x (co\<lparr>Connection_Caller := ca\<rparr>) = Connection_Hash x co"
proof -
  have 1: "Network_Hash x (n\<lparr>Network_ID := i, Network_Caller := ca\<rparr>) = Network_Hash x n"
    by (simp add: Network_Hash_def)
  have 2: "DNSRecord_Hash (d\<lparr>DNSRecord_ID := i, DNSRecord_Caller := ca\<rparr>) = DNSRecord_Hash d"
    by (simp add: DNSRecord_Hash_def)
  have 3: "Command_Hash (c\<lparr>Command_ID := i, Command_Caller := ca\<rparr>) = Command_Hash c"
    by (simp add: Command_Hash_def)
  have 4: "RemoteFile_Hash x (f\<lparr>RemoteFile_ID := i, RemoteFile_Caller := ca\<rparr>) = RemoteFile_Hash x f"
    by (simp add: RemoteFile_Hash_def RemoteFile_ResourceHash_def)
  have 5: "ProvisioningStep_Hash x (s\<lparr>ProvisioningStep_ID := i, ProvisioningStep_Caller := ca\<rparr>)
       = ProvisioningStep_Hash x s"
    by (simp add: ProvisioningStep_Hash_def split: option.splits)
  have 6: "ProvisionedNetwork_Hash x (pn\<lparr>ProvisionedNetwork_ID := i, ProvisionedNetwork_Caller := ca\<rparr>)
       = ProvisionedNetwork_Hash x pn"
    by (simp add: ProvisionedNetwork_Hash_def split: option.splits)
  have 7: "Connection_Hash x (co\<lparr>Connection_Caller := ca\<rparr>) = Connection_Hash x co"
    by (simp add: Connection_Hash_def)
  from 1 2 3 4 5 6 7 show ?thesis by blast
qed

theorem Hash_ignores_ID_and_Caller_witness:
  "DNSRecord_Hash (zero_dNSRecord\<lparr>DNSRecord_Name := ''www'', DNSRecord_ID := ''/dns-records/www'',
       DNSRecord_Caller := Caller 3\<rparr>)
     = DNSRecord_Hash (zero_dNSRecord\<lparr>DNSRecord_Name := ''www''\<rparr>)
   \<and> Network_Hash bare_ext (zero_network\<lparr>Network_Name := ''dmz'', Network_ID := ''/networks/dmz'',
       Network_Caller := Caller 3\<rparr>)
     = Network_Hash bare_ext (zero_network\<lparr>Network_Name := ''dmz''\<rparr>)"
  using Hash_ignores_ID_and_Caller [where x = bare_ext and n = "zero_network\<lparr>Network_Name := ''dmz''\<rparr>"
      and i = "''/networks/dmz''" and ca = "Caller 3"
      and d = "zero_dNSRecord\<lparr>DNSRecord_Name := ''www''\<rparr>"]
    Hash_ignores_ID_and_Caller [where x = bare_ext and n = "zero_network\<lparr>Network_Name := ''dmz''\<rparr>"
      and i = "''/dns-records/www''" and ca = "Caller 3"
      and d = "zero_dNSRecord\<lparr>DNSRecord_Name := ''www''\<rparr>"]
  by simp

text \<open>
  The claim as it was stated fails for \<open>Connection\<close>, whose \<open>Hash\<close> formats the \<open>ID\<close>: two
  connections that differ only in their \<open>ID\<close> have different checksums.
\<close>

theorem Connection_Hash_depends_on_ID:
  "Connection_Hash bare_ext
     (zero_connection\<lparr>Connection_ID := ''/envs/ctf/b1/teams/t1/networks/dmz/hosts/web01/conn''\<rparr>)
   \<noteq> Connection_Hash bare_ext
     (zero_connection\<lparr>Connection_ID := ''/envs/ctf/b1/teams/t1/networks/dmz/hosts/web02/conn''\<rparr>)"
proof -
  have f: "fmt_u64 666 = ''666''" by code_simp
  have a: "Sum64String ''id=/envs/ctf/b1/teams/t1/networks/dmz/hosts/web01/conn localaddr= rmaddr= rname= sshc=666 wrmc=666''
    = 10800132210164102100" by code_simp
  have b: "Sum64String ''id=/envs/ctf/b1/teams/t1/networks/dmz/hosts/web02/conn localaddr= rmaddr= rname= sshc=666 wrmc=666''
    = 15078325216858150809" by code_simp
  show ?thesis
    by (simp add: Connection_Hash_def zero_connection_def f a b)
qed

subsection \<open>Swap\<close>

lemma assign_deref_live:
  "h r = Some a \<Longrightarrow> h q = Some b \<Longrightarrow> assign_deref (Some r) (Some q) h = Returns (h(r \<mapsto> b))"
  by (simp add: assign_deref_def)

lemma Network_Swap_mismatch:
  "\<forall>q. m \<noteq> NetworkPtr q \<Longrightarrow>
   Network_Swap n m H = Returns (Some (Wrapf ErrSwapTypeMismatch (''expected *core.Network, got '' @ fmt_T m)), H)"
  by (cases m) (simp_all add: Network_Swap_def mismatch_def)

lemma DNSRecord_Swap_mismatch:
  "\<forall>q. m \<noteq> DNSRecordPtr q \<Longrightarrow>
   DNSRecord_Swap n m H = Returns (Some (Wrapf ErrSwapTypeMismatch (''expected *core.DNSRecord, got '' @ fmt_T m)), H)"
  by (cases m) (simp_all add: DNSRecord_Swap_def mismatch_def)

lemma Command_Swap_mismatch:
  "\<forall>q. m \<noteq> CommandPtr q \<Longrightarrow>
   Command_Swap n m H = Returns (Some (Wrapf ErrSwapTypeMismatch (''expected *core.Command, got '' @ fmt_T m)), H)"
  by (cases m) (simp_all add: Command_Swap_def mismatch_def)

lemma RemoteFile_Swap_mismatch:
  "\<forall>q. m \<noteq> RemoteFilePtr q \<Longrightarrow>
   RemoteFile_Swap n m H = Returns (Some (Wrapf ErrSwapTypeMismatch (''expected *core.RemoteFile, got '' @ fmt_T m)), H)"
  by (cases m) (simp_all add: RemoteFile_Swap_def mismatch_def)

lemma ProvisioningStep_Swap_mismatch:
  "\<forall>q. m \<noteq> ProvisioningStepPtr q \<Longrightarrow>
   ProvisioningStep_Swap n m H
     = Returns (Some (Wrapf ErrSwapTypeMismatch (''expected *core.ProvisioningStep, got '' @ fmt_T m)), H)"
  by (cases m) (simp_all add: ProvisioningStep_Swap_def mismatch_def)

lemma ProvisionedNetwork_Swap_mismatch:
  "\<forall>q. m \<noteq> ProvisionedNetworkPtr q \<Longrightarrow>
   ProvisionedNetwork_Swap n m H
     = Returns (Some (Wrapf ErrSwapTypeMismatch (''expected *core.ProvisionedNetwork, got '' @ fmt_T m)), H)"
  by (cases m) (simp_all add: ProvisionedNetwork_Swap_def mismatch_def)

lemma Connection_Swap_mismatch:
  "\<forall>q. m \<noteq> ConnectionPtr q \<Longrightarrow>
   Connection_Swap n m H = Returns (Some (Wrapf ErrSwapTypeMismatch (''expected *core.Connection, got '' @ fmt_T m)), H)"
  by (cases m) (simp_all add: Connection_Swap_def mismatch_def)

text \<open>
  Claim C2.  For each of the seven kinds: when the other operand is not a pointer of the
  receiver's kind (another kind, or the nil interface), \<open>Swap\<close> returns an error that wraps
  \<open>ErrSwapTypeMismatch\<close> and the store is as it was, so neither operand is changed; when
  receiver and other are objects of the same kind, \<open>Swap\<close> returns no error and the store
  differs in one place only: the receiver now holds the other's whole value.  (A nil pointer
  is no object: dereferencing it panics.)
\<close>

theorem Swap_replaces_or_rejects:
  "((\<forall>q. m \<noteq> NetworkPtr q) \<longrightarrow>
      Network_Swap n m H
        = Returns (Some (Wrapf ErrSwapTypeMismatch (''expected *core.Network, got '' @ fmt_T m)), H))
   \<and> ((\<forall>q. m \<noteq> DNSRecordPtr q) \<longrightarrow>
      DNSRecord_Swap n m H
        = Returns (Some (Wrapf ErrSwapTypeMismatch (''expected *core.DNSRecord, got '' @ fmt_T m)), H))
   \<and> ((\<forall>q. m \<noteq> CommandPtr q) \<longrightarrow>
      Command_Swap n m H
        = Returns (Some (Wrapf ErrSwapTypeMismatch (''expected *core.Command, got '' @ fmt_T m)), H))
   \<and> ((\<forall>q. m \<noteq> RemoteFilePtr q) \<longrightarrow>
      RemoteFile_Swap n m H
        = Returns (Some (Wrapf ErrSwapTypeMismatch (''expected *core.RemoteFile, got '' @ fmt_T m)), H))
   \<and> ((\<forall>q. m \<noteq> ProvisioningStepPtr q) \<longrightarrow>
      ProvisioningStep_Swap n m H
        = Returns (Some (Wrapf ErrSwapTypeMismatch (''expected *core.ProvisioningStep, got '' @ fmt_T m)), H))
   \<and> ((\<forall>q. m \<noteq> ProvisionedNetworkPtr q) \<longrightarrow>
      ProvisionedNetwork_Swap n m H
        = Returns (Some (Wrapf ErrSwapTypeMismatch (''expected *core.ProvisionedNetwork, got '' @ fmt_T m)), H))
   \<and> ((\<forall>q. m \<noteq> ConnectionPtr q) \<longrightarrow>
      Connection_Swap n m H
        = Returns (Some (Wrapf ErrSwapTypeMismatch (''expected *core.Connection, got '' @ fmt_T m)), H))
   \<and> (r \<in> dom (heap_Network H) \<and> heap_Network H q = Some bN \<longrightarrow>
      Network_Swap (Some r) (NetworkPtr (Some q)) H
        = Returns (None, H\<lparr>heap_Network := (heap_Network H)(r \<mapsto> bN)\<rparr>))
   \<and> (r \<in> dom (heap_DNSRecord H) \<and> heap_DNSRecord H q = Some bD \<longrightarrow>
      DNSRecord_Swap (Some r) (DNSRecordPtr (Some q)) H
        = Returns (None, H\<lparr>heap_DNSRecord := (heap_DNSRecord H)(r \<mapsto> bD)\<rparr>))
   \<and> (r \<in> dom (heap_Command H) \<and> heap_Command H q = Some bC \<longrightarrow>
      Command_Swap (Some r) (CommandPtr (Some q)) H
        = Returns (None, H\<lparr>heap_Command := (heap_Command H)(r \<mapsto> bC)\<rparr>))
   \<and> (r \<in> dom (heap_RemoteFile H) \<and> heap_RemoteFile H q = Some bF \<longrightarrow>
      RemoteFile_Swap (Some r) (RemoteFilePtr (Some q)) H
        = Returns (None, H\<lparr>heap_RemoteFile := (heap_RemoteFile H)(r \<mapsto> bF)\<rparr>))
   \<and> (r \<in> dom (heap_ProvisioningStep H) \<and> heap_ProvisioningStep H q = Some bS \<longrightarrow>
      ProvisioningStep_Swap (Some r) (ProvisioningStepPtr (Some q)) H
        = Returns (None, H\<lparr>heap_ProvisioningStep := (heap_ProvisioningStep H)(r \<mapsto> bS)\<rparr>))
   \<and> (r \<in> dom (heap_ProvisionedNetwork H) \<and> heap_ProvisionedNetwork H q = Some bP \<longrightarrow>
      ProvisionedNetwork_Swap (Some r) (ProvisionedNetworkPtr (Some q)) H
        = Returns (None, H\<lparr>heap_ProvisionedNetwork := (heap_ProvisionedNetwork H)(r \<mapsto> bP)\<rparr>))
   \<and> (r \<in> dom (heap_Connection H) \<and> heap_Connection H q = Some bO \<longrightarrow>
      Connection_Swap (Some r) (ConnectionPtr (Some q)) H
        = Returns (None, H\<lparr>heap_Connection := (heap_Connection H)(r \<mapsto> bO)\<rparr>))"
proof -
  have s1: "r \<in> dom (heap_Network H) \<and> heap_Network H q = Some bN \<longrightarrow>
      Network_Swap (Some r) (NetworkPtr (Some q)) H
        = Returns (None, H\<lparr>heap_Network := (heap_Network H)(r \<mapsto> bN)\<rparr>)"
    by (auto simp: Network_Swap_def assign_deref_live)
  have s2: "r \<in> dom (heap_DNSRecord H) \<and> heap_DNSRecord H q = Some bD \<longrightarrow>
      DNSRecord_Swap (Some r) (DNSRecordPtr (Some q)) H
        = Returns (None, H\<lparr>heap_DNSRecord := (heap_DNSRecord H)(r \<mapsto> bD)\<rparr>)"
    by (auto simp: DNSRecord_Swap_def assign_deref_live)
  have s3: "r \<in> dom (heap_Command H) \<and> heap_Command H q = Some bC \<longrightarrow>
      Command_Swap (Some r) (CommandPtr (Some q)) H
        = Returns (None, H\<lparr>heap_Command := (heap_Command H)(r \<mapsto> bC)\<rparr>)"
    by (auto simp: Command_Swap_def assign_deref_live)
  have s4: "r \<in> dom (heap_RemoteFile H) \<and> heap_RemoteFile H q = Some bF \<longrightarrow>
      RemoteFile_Swap (Some r) (RemoteFilePtr (Some q)) H
        = Returns (None, H\<lparr>heap_RemoteFile := (heap_RemoteFile H)(r \<mapsto> bF)\<rparr>)"
    by (auto simp: RemoteFile_Swap_def assign_deref_live)
  have s5: "r \<in> dom (heap_ProvisioningStep H) \<and> heap_ProvisioningStep H q = Some bS \<longrightarrow>
      ProvisioningStep_Swap (Some r) (ProvisioningStepPtr (Some q)) H
        = Returns (None, H\<lparr>heap_ProvisioningStep := (heap_ProvisioningStep H)(r \<mapsto> bS)\<rparr>)"
    by (auto simp: ProvisioningStep_Swap_def assign_deref_live)
  have s6: "r \<in> dom (heap_ProvisionedNetwork H) \<and> heap_ProvisionedNetwork H q = Some bP \<longrightarrow>
      ProvisionedNetwork_Swap (Some r) (ProvisionedNetworkPtr (Some q)) H
        = Returns (None, H\<lparr>heap_ProvisionedNetwork := (heap_ProvisionedNetwork H)(r \<mapsto> bP)\<rparr>)"
    by (auto simp: ProvisionedNetwork_Swap_def assign_deref_live)
  have s7: "r \<in> dom (heap_Connection H) \<and> heap_Connection H q = Some bO \<longrightarrow>
      Connection_Swap (Some r) (ConnectionPtr (Some q)) H
        = Returns (None, H\<lparr>heap_Connection := (heap_Connection H)(r \<mapsto> bO)\<rparr>)"
    by (auto simp: Connection_Swap_def assign_deref_live)
  from s1 s2 s3 s4 s5 s6 s7
    Network_Swap_mismatch [of m n H] DNSRecord_Swap_mismatch [of m n H]
    Command_Swap_mismatch [of m n H] RemoteFile_Swap_mismatch [of m n H]
    ProvisioningStep_Swap_mismatch [of m n H] ProvisionedNetwork_Swap_mismatch [of m n H]
    Connection_Swap_mismatch [of m n H]
  show ?thesis by blast
qed

text \<open>
  A store with two networks and a DNS record: swapping network 1 with the DNS record is
  rejected and changes nothing; swapping it with network 2 makes it a copy of network 2,
  the pointer in \<open>OnConflict\<close> included.
\<close>

theorem Swap_replaces_or_rejects_witness:
  "(let lan = zero_network\<lparr>Network_ID := ''/networks/lan'', Network_Name := ''lan''\<rparr>;
        dmz = zero_network\<lparr>Network_ID := ''/networks/dmz'', Network_Name := ''dmz'',
                Network_OnConflict := Some \<lparr>OnConflict_Do = ''overwrite'', OnConflict_Append = False\<rparr>\<rparr>;
        H = empty_heaps\<lparr>heap_Network := [1 \<mapsto> lan, 2 \<mapsto> dmz], heap_DNSRecord := [3 \<mapsto> zero_dNSRecord]\<rparr>
    in Network_Swap (Some 1) (DNSRecordPtr (Some 3)) H
         = Returns (Some (Wrapf ErrSwapTypeMismatch ''expected *core.Network, got *core.DNSRecord''), H)
       \<and> Network_Swap (Some 1) (NetworkPtr (Some 2)) H
         = Returns (None, H\<lparr>heap_Network := [1 \<mapsto> dmz, 2 \<mapsto> dmz]\<rparr>))"
proof -
  define lan where "lan = zero_network\<lparr>Network_ID := ''/networks/lan'', Network_Name := ''lan''\<rparr>"
  define dmz where "dmz = zero_network\<lparr>Network_ID := ''/networks/dmz'', Network_Name := ''dmz'',
                Network_OnConflict := Some \<lparr>OnConflict_Do = ''overwrite'', OnConflict_Append = False\<rparr>\<rparr>"
  define H where "H = empty_heaps\<lparr>heap_Network := [1 \<mapsto> lan, 2 \<mapsto> dmz], heap_DNSRecord := [3 \<mapsto> zero_dNSRecord]\<rparr>"
  have mis: "\<forall>q. DNSRecordPtr (Some 3) \<noteq> NetworkPtr q" by simp
  have live: "(1::nat) \<in> dom (heap_Network H) \<and> heap_Network H 2 = Some dmz"
    by (simp add: H_def)
  have upd: "(heap_Network H)(1 \<mapsto> dmz) = [1 \<mapsto> dmz, 2 \<mapsto> dmz]"
    by (auto simp: H_def)
  from mis Swap_replaces_or_rejects [where m = "DNSRecordPtr (Some 3)" and n = "Some 1" and H = H]
  have a: "Network_Swap (Some 1) (DNSRecordPtr (Some 3)) H
         = Returns (Some (Wrapf ErrSwapTypeMismatch ''expected *core.Network, got *core.DNSRecord''), H)"
    by simp
  from live Swap_replaces_or_rejects [where r = 1 and q = 2 and H = H and bN = dmz]
  have b: "Network_Swap (Some 1) (NetworkPtr (Some 2)) H
         = Returns (None, H\<lparr>heap_Network := [1 \<mapsto> dmz, 2 \<mapsto> dmz]\<rparr>)"
    using upd by simp
  from a b show ?thesis
    by (simp add: lan_def dmz_def H_def Let_def)
qed

subsection \<open>Facts about \<^verbatim>\<open>path.Clean\<close>, \<^verbatim>\<open>path.Dir\<close> and \<^verbatim>\<open>path.Join\<close>\<close>

lemma path_Clean_nonempty: "path_Clean p \<noteq> []"
  by (simp add: path_Clean_def Let_def)

lemma path_Join3_nonempty: "e2 \<noteq> [] \<Longrightarrow> path_Join [e1, e2, e3] \<noteq> []"
  by (simp add: path_Clean_nonempty)

lemma path_Join2_nonempty: "e2 \<noteq> [] \<Longrightarrow> path_Join [e1, e2] \<noteq> []"
  by (simp add: path_Clean_nonempty)

lemma slash_neq_dot: "slash \<noteq> dot"
  by (simp add: slash_def dot_def)

lemma clean_loop_slash: "clean_loop rooted (slash # rest) out dd = clean_loop rooted rest out dd"
  by simp

lemma takeWhile_no_slash:
  assumes "slash \<notin> set xs" and "rest = [] \<or> hd rest = slash"
  shows "takeWhile (\<lambda>x. x \<noteq> slash) (xs @ rest) = xs"
    and "dropWhile (\<lambda>x. x \<noteq> slash) (xs @ rest) = rest"
proof -
  from assms(2) have t: "takeWhile (\<lambda>x. x \<noteq> slash) rest = []"
    and d: "dropWhile (\<lambda>x. x \<noteq> slash) rest = rest"
    by (cases rest; auto)+
  from assms(1) have p: "\<And>x. x \<in> set xs \<Longrightarrow> x \<noteq> slash" by auto
  show "takeWhile (\<lambda>x. x \<noteq> slash) (xs @ rest) = xs"
    using takeWhile_append2 [of xs "\<lambda>x. x \<noteq> slash" rest] p t by simp
  show "dropWhile (\<lambda>x. x \<noteq> slash) (xs @ rest) = rest"
    using dropWhile_append2 [of xs "\<lambda>x. x \<noteq> slash" rest] p d by simp
qed

lemma clean_loop_comp:
  assumes c: "real_comp c" and rest: "rest = [] \<or> hd rest = slash"
  shows "clean_loop True (c @ rest) out dd
         = clean_loop True rest ((if length out \<noteq> 1 then out @ [slash] else out) @ c) dd"
proof -
  from c obtain x xs where cx: "c = x # xs"
    by (cases c) (auto simp: real_comp_def)
  from c cx have xns: "x \<noteq> slash" and xsns: "slash \<notin> set xs"
    by (auto simp: real_comp_def)
  have not_dot: "\<not> (x = dot \<and> (xs @ rest = [] \<or> hd (xs @ rest) = slash))"
  proof
    assume a: "x = dot \<and> (xs @ rest = [] \<or> hd (xs @ rest) = slash)"
    show False
    proof (cases xs)
      case Nil
      with a c cx show False by (simp add: real_comp_def)
    next
      case (Cons y ys)
      with a xsns show False by auto
    qed
  qed
  have not_dotdot: "\<not> (x = dot \<and> hd (xs @ rest) = dot
      \<and> (tl (xs @ rest) = [] \<or> hd (tl (xs @ rest)) = slash))"
  proof
    assume a: "x = dot \<and> hd (xs @ rest) = dot \<and> (tl (xs @ rest) = [] \<or> hd (tl (xs @ rest)) = slash)"
    show False
    proof (cases xs)
      case Nil
      with c cx a show False by (simp add: real_comp_def)
    next
      case (Cons y ys)
      show False
      proof (cases ys)
        case Nil
        with Cons a c cx show False by (simp add: real_comp_def)
      next
        case (Cons z zs)
        with \<open>xs = y # ys\<close> a xsns show False by auto
      qed
    qed
  qed
  have "clean_loop True (x # (xs @ rest)) out dd
        = clean_loop True (dropWhile (\<lambda>x. x \<noteq> slash) (xs @ rest))
            ((if length out \<noteq> 1 then out @ [slash] else out) @ x # takeWhile (\<lambda>x. x \<noteq> slash) (xs @ rest)) dd"
    using xns not_dot not_dotdot
    by (simp only: clean_loop.simps if_False Let_def simp_thms if_True) 
  then show ?thesis
    using takeWhile_no_slash [OF xsns rest] cx by simp
qed

lemma abs_path_Cons: "abs_path (c # cs) = slash # c @ abs_path cs"
  by (simp add: abs_path_def)

lemma abs_path_Nil: "abs_path [] = []"
  by (simp add: abs_path_def)

lemma abs_path_snoc: "abs_path (cs @ [c]) = abs_path cs @ slash # c"
  by (simp add: abs_path_def)

lemma abs_path_tail_starts:
  "tail = [] \<or> tail = [slash] \<Longrightarrow> abs_path cs @ tail = [] \<or> hd (abs_path cs @ tail) = slash"
  by (cases cs) (auto simp: abs_path_Cons abs_path_Nil)

lemma clean_loop_abs:
  assumes "\<forall>c \<in> set comps. real_comp c" and "tail = [] \<or> tail = [slash]" and "length out \<noteq> 1"
  shows "clean_loop True (abs_path comps @ tail) out dd = out @ abs_path comps"
  using assms
proof (induction comps arbitrary: out)
  case Nil
  then show ?case by (auto simp: abs_path_Nil)
next
  case (Cons c cs)
  have rc: "real_comp c" using Cons.prems(1) by simp
  then have cne: "c \<noteq> []" by (simp add: real_comp_def)
  have st: "abs_path cs @ tail = [] \<or> hd (abs_path cs @ tail) = slash"
    using abs_path_tail_starts Cons.prems(2) by blast
  have "clean_loop True (abs_path (c # cs) @ tail) out dd
        = clean_loop True (c @ (abs_path cs @ tail)) out dd"
    by (simp add: abs_path_Cons)
  also have "\<dots> = clean_loop True (abs_path cs @ tail) ((out @ [slash]) @ c) dd"
    using clean_loop_comp [OF rc st, of out dd] Cons.prems(3) by simp
  also have "\<dots> = ((out @ [slash]) @ c) @ abs_path cs"
    using Cons.IH [of "(out @ [slash]) @ c"] Cons.prems(1,2) cne by simp
  finally show ?case by (simp add: abs_path_Cons)
qed

lemma path_Clean_abs:
  assumes "comps \<noteq> []" and "\<forall>c \<in> set comps. real_comp c" and "tail = [] \<or> tail = [slash]"
  shows "path_Clean (abs_path comps @ tail) = abs_path comps"
proof -
  from assms(1) obtain c cs where cc: "comps = c # cs" by (cases comps) auto
  have rc: "real_comp c" using assms(2) cc by simp
  then have cne: "c \<noteq> []" by (simp add: real_comp_def)
  have st: "abs_path cs @ tail = [] \<or> hd (abs_path cs @ tail) = slash"
    using abs_path_tail_starts assms(3) by blast
  have "clean_loop True (c @ (abs_path cs @ tail)) [slash] 1
        = clean_loop True (abs_path cs @ tail) ([slash] @ c) 1"
    using clean_loop_comp [OF rc st, of "[slash]" 1] by simp
  also have "\<dots> = ([slash] @ c) @ abs_path cs"
    using clean_loop_abs [of cs tail "[slash] @ c" 1] assms(2,3) cc cne by simp
  finally have "clean_loop True (c @ abs_path cs @ tail) [slash] 1 = slash # c @ abs_path cs"
    by simp
  then show ?thesis
    by (simp add: path_Clean_def cc abs_path_Cons)
qed

lemma after_last_slash_append:
  "slash \<notin> set b \<Longrightarrow> after_last_slash (xs @ slash # b) = Suc (length xs)"
  by (induction xs) auto

lemma path_Dir_child:
  assumes "comps \<noteq> []" and "\<forall>c \<in> set comps. real_comp c" and "slash \<notin> set b"
  shows "path_Dir (abs_path comps @ slash # b) = abs_path comps"
proof -
  have "fst (path_Split (abs_path comps @ slash # b)) = abs_path comps @ [slash]"
    by (simp add: path_Split_def after_last_slash_append [OF assms(3)])
  then show ?thesis
    using path_Clean_abs [OF assms(1,2), of "[slash]"] by (simp add: path_Dir_def)
qed

lemma path_Dir_grandchild:
  assumes "comps \<noteq> []" and "\<forall>c \<in> set comps. real_comp c" and "real_comp a" and "slash \<notin> set b"
  shows "path_Dir (path_Dir (abs_path comps @ slash # a @ slash # b)) = abs_path comps"
proof -
  have r: "\<forall>c \<in> set (comps @ [a]). real_comp c" using assms(2,3) by simp
  have "path_Dir (abs_path (comps @ [a]) @ slash # b) = abs_path (comps @ [a])"
    using path_Dir_child [of "comps @ [a]" b] r assms(4) by simp
  then have "path_Dir (abs_path comps @ slash # a @ slash # b) = abs_path comps @ slash # a"
    by (simp add: abs_path_snoc)
  moreover have "slash \<notin> set a" using assms(3) by (simp add: real_comp_def)
  ultimately show ?thesis
    using path_Dir_child [OF assms(1,2), of a] by simp
qed

lemma path_Join3_abs:
  assumes "comps \<noteq> []" and "\<forall>c \<in> set comps. real_comp c" and "real_comp a" and "real_comp b"
  shows "path_Join [abs_path comps, a, b] = abs_path comps @ slash # a @ slash # b"
proof -
  from assms(1) have ne: "abs_path comps \<noteq> []"
    by (cases comps) (auto simp: abs_path_Cons)
  have r: "\<forall>c \<in> set (comps @ [a, b]). real_comp c" using assms(2,3,4) by simp
  have "path_Clean (abs_path (comps @ [a, b]) @ []) = abs_path (comps @ [a, b])"
    using path_Clean_abs [of "comps @ [a, b]" "[]"] r by simp
  moreover have "abs_path (comps @ [a, b]) = abs_path comps @ slash # a @ slash # b"
    by (simp add: abs_path_def)
  ultimately show ?thesis using ne by simp
qed

lemma real_comp_networks: "real_comp ''networks''"
  by (simp add: real_comp_def slash_def dot_def)

lemma real_comp_steps: "real_comp ''steps''"
  by (simp add: real_comp_def slash_def dot_def)

lemma obind_Returns_iff: "obind a f = Returns y \<longleftrightarrow> (\<exists>v. a = Returns v \<and> f v = Returns y)"
  by (cases a) auto

subsection \<open>ParentLaforgeID\<close>

lemma networks_literal: "''/networks/'' @ b = slash # ''networks'' @ slash # b"
  by (simp add: slash_def)

lemma steps_literal: "''/steps/'' @ b = slash # ''steps'' @ slash # b"
  by (simp add: slash_def)

text \<open>
  Claim C4, as the code has it.  Let the parent be a clean absolute path
  \<^verbatim>\<open>/e1/.../en\<close> of proper elements.  For a \<open>ProvisionedNetwork\<close> with the canonical \<open>ID\<close>
  \<^verbatim>\<open>parent/networks/name\<close> and a \<open>ProvisioningStep\<close> with the canonical \<open>ID\<close>
  \<^verbatim>\<open>parent/steps/name\<close>, \<open>ParentLaforgeID\<close> returns the parent, the path two directory levels
  up.  When \<open>SetID\<close> assigns the \<open>ID\<close>, that parent is the path of the owning \<open>Team\<close> for a
  \<open>ProvisionedNetwork\<close>, and the path of the owning \<open>ProvisionedHost\<close> for a \<open>ProvisioningStep\<close>.
\<close>

theorem ParentLaforgeID_two_levels_up:
  assumes "comps \<noteq> []" and "\<forall>c \<in> set comps. real_comp c"
  shows "(slash \<notin> set b \<longrightarrow>
            ProvisionedNetwork_ParentLaforgeID (p\<lparr>ProvisionedNetwork_ID := abs_path comps @ ''/networks/'' @ b\<rparr>)
              = abs_path comps
            \<and> ProvisioningStep_ParentLaforgeID (s\<lparr>ProvisioningStep_ID := abs_path comps @ ''/steps/'' @ b\<rparr>)
              = abs_path comps)
    \<and> (ProvisionedNetwork_ID p = [] \<and> Team_Path x (ProvisionedNetwork_Team p) = Returns (abs_path comps)
        \<and> ProvisionedNetwork_Network p = Some n \<and> real_comp (Network_Base n) \<longrightarrow>
          (\<exists>p'. ProvisionedNetwork_SetID x p
                   = Returns (abs_path comps @ ''/networks/'' @ Network_Base n, p')
              \<and> ProvisionedNetwork_ParentLaforgeID p' = abs_path comps))
    \<and> (ProvisioningStep_ID s = []
        \<and> ProvisionedHost_Path x (ProvisioningStep_ProvisionedHost s) = Returns (abs_path comps)
        \<and> ProvisioningStep_Provisioner s = Some pv \<and> Provisioner_Base x pv = Returns base
        \<and> real_comp (fmt_int (ProvisioningStep_StepNumber s) @ ''-'' @ base) \<longrightarrow>
          (\<exists>s'. ProvisioningStep_SetID x s
                   = Returns (abs_path comps @ ''/steps/''
                               @ fmt_int (ProvisioningStep_StepNumber s) @ ''-'' @ base, s')
              \<and> ProvisioningStep_ParentLaforgeID s' = abs_path comps))"
proof -
  have up: "path_Dir (path_Dir (abs_path comps @ slash # a @ slash # e)) = abs_path comps"
    if "real_comp a" and "slash \<notin> set e" for a e
    using path_Dir_grandchild [OF assms that] .
  have nw: "path_Dir (path_Dir (abs_path comps @ ''/networks/'' @ e)) = abs_path comps"
    if "slash \<notin> set e" for e
    unfolding networks_literal using up [OF real_comp_networks that] by simp
  have st: "path_Dir (path_Dir (abs_path comps @ ''/steps/'' @ e)) = abs_path comps"
    if "slash \<notin> set e" for e
    unfolding steps_literal using up [OF real_comp_steps that] by simp
  have a: "slash \<notin> set b \<longrightarrow>
            ProvisionedNetwork_ParentLaforgeID (p\<lparr>ProvisionedNetwork_ID := abs_path comps @ ''/networks/'' @ b\<rparr>)
              = abs_path comps
            \<and> ProvisioningStep_ParentLaforgeID (s\<lparr>ProvisioningStep_ID := abs_path comps @ ''/steps/'' @ b\<rparr>)
              = abs_path comps"
    using nw [of b] st [of b]
    by (simp add: ProvisionedNetwork_ParentLaforgeID_def ProvisionedNetwork_LaforgeID_def
        ProvisioningStep_ParentLaforgeID_def ProvisioningStep_LaforgeID_def)
  have b: "\<exists>p'. ProvisionedNetwork_SetID x p
                   = Returns (abs_path comps @ ''/networks/'' @ Network_Base n, p')
              \<and> ProvisionedNetwork_ParentLaforgeID p' = abs_path comps"
    if h: "ProvisionedNetwork_ID p = []" "Team_Path x (ProvisionedNetwork_Team p) = Returns (abs_path comps)"
      "ProvisionedNetwork_Network p = Some n" "real_comp (Network_Base n)"
  proof -
    have j: "path_Join [abs_path comps, ''networks'', Network_Base n]
             = abs_path comps @ ''/networks/'' @ Network_Base n"
      unfolding networks_literal by (rule path_Join3_abs [OF assms real_comp_networks h(4)])
    have ns: "slash \<notin> set (Network_Base n)" using h(4) by (simp add: real_comp_def)
    have ne: "abs_path comps @ ''/networks/'' @ Network_Base n \<noteq> []" by simp
    show ?thesis
      using h(1,2,3) j ne nw [OF ns]
      by (cases "ProvisionedNetwork_NetworkID p = []")
        (simp_all add: ProvisionedNetwork_SetID_def ProvisionedNetwork_ParentLaforgeID_def
          ProvisionedNetwork_LaforgeID_def)
  qed
  have c: "\<exists>s'. ProvisioningStep_SetID x s
                   = Returns (abs_path comps @ ''/steps/''
                               @ fmt_int (ProvisioningStep_StepNumber s) @ ''-'' @ base, s')
              \<and> ProvisioningStep_ParentLaforgeID s' = abs_path comps"
    if h: "ProvisioningStep_ID s = []"
      "ProvisionedHost_Path x (ProvisioningStep_ProvisionedHost s) = Returns (abs_path comps)"
      "ProvisioningStep_Provisioner s = Some pv" "Provisioner_Base x pv = Returns base"
      "real_comp (fmt_int (ProvisioningStep_StepNumber s) @ ''-'' @ base)"
  proof -
    let ?f = "fmt_int (ProvisioningStep_StepNumber s) @ ''-'' @ base"
    have j: "path_Join [abs_path comps, ''steps'', ?f] = abs_path comps @ ''/steps/'' @ ?f"
      unfolding steps_literal by (rule path_Join3_abs [OF assms real_comp_steps h(5)])
    have ns: "slash \<notin> set ?f" using h(5) by (simp add: real_comp_def)
    show ?thesis
      using h(1,2,3,4) j st [OF ns]
      by (cases pv)
        (simp_all add: ProvisioningStep_SetID_def link_provisioner_def
          ProvisioningStep_ParentLaforgeID_def ProvisioningStep_LaforgeID_def Let_def)
  qed
  from a b c show ?thesis by blast
qed

theorem ParentLaforgeID_two_levels_up_witness:
  "(let team = [''envs'', ''ctf'', ''b1'', ''teams'', ''t1''];
        dmz = zero_network\<lparr>Network_ID := ''/networks/dmz''\<rparr>;
        p = zero_provisionedNetwork\<lparr>ProvisionedNetwork_Team := Some (Team 1),
              ProvisionedNetwork_Network := Some dmz\<rparr>
    in team \<noteq> [] \<and> (\<forall>c \<in> set team. real_comp c) \<and> abs_path team = ''/envs/ctf/b1/teams/t1''
       \<and> real_comp (Network_Base dmz)
       \<and> ProvisionedNetwork_ParentLaforgeID
           (p\<lparr>ProvisionedNetwork_ID := ''/envs/ctf/b1/teams/t1/networks/dmz''\<rparr>)
         = ''/envs/ctf/b1/teams/t1''
       \<and> (\<exists>p'. ProvisionedNetwork_SetID bare_ext p
                  = Returns (''/envs/ctf/b1/teams/t1/networks/dmz'', p')
             \<and> ProvisionedNetwork_ParentLaforgeID p' = ''/envs/ctf/b1/teams/t1''))"
proof -
  define team where "team = [''envs'', ''ctf'', ''b1'', ''teams'', ''t1'']"
  define dmz where "dmz = zero_network\<lparr>Network_ID := ''/networks/dmz''\<rparr>"
  define p where "p = zero_provisionedNetwork\<lparr>ProvisionedNetwork_Team := Some (Team 1),
              ProvisionedNetwork_Network := Some dmz\<rparr>"
  have t1: "team \<noteq> []" by (simp add: team_def)
  have t2: "\<forall>c \<in> set team. real_comp c" by (simp add: team_def real_comp_def slash_def dot_def)
  have t3: "abs_path team = ''/envs/ctf/b1/teams/t1''" by (simp add: team_def abs_path_def slash_def)
  have base: "Network_Base dmz = ''dmz''" unfolding dmz_def zero_network_def by code_simp
  have rb: "real_comp (Network_Base dmz)" by (simp add: base real_comp_def slash_def dot_def)
  have ns: "slash \<notin> set ''dmz''" by (simp add: slash_def)
  have pre: "ProvisionedNetwork_ID p = []
     \<and> Team_Path bare_ext (ProvisionedNetwork_Team p) = Returns (abs_path team)
     \<and> ProvisionedNetwork_Network p = Some dmz \<and> real_comp (Network_Base dmz)"
    using rb by (simp add: p_def zero_provisionedNetwork_def bare_ext_def t3)
  note inst = ParentLaforgeID_two_levels_up [OF t1 t2, where b = "''dmz''" and p = p and x = bare_ext
      and n = dmz]
  from inst ns have a: "ProvisionedNetwork_ParentLaforgeID
           (p\<lparr>ProvisionedNetwork_ID := ''/envs/ctf/b1/teams/t1/networks/dmz''\<rparr>)
         = ''/envs/ctf/b1/teams/t1''"
    by (simp add: t3)
  from inst pre have b: "\<exists>p'. ProvisionedNetwork_SetID bare_ext p
                  = Returns (''/envs/ctf/b1/teams/t1/networks/dmz'', p')
             \<and> ProvisionedNetwork_ParentLaforgeID p' = ''/envs/ctf/b1/teams/t1''"
    by (simp add: t3 base)
  from t1 t2 t3 rb a b show ?thesis
    unfolding Let_def team_def [symmetric] dmz_def [symmetric] p_def [symmetric] by blast
qed

text \<open>
  The claim as it was stated fails: two levels up from a provisioned network is its team,
  and two levels up from a provisioning step is its provisioned host; the build is further
  up.
\<close>

theorem ParentLaforgeID_is_not_the_Build:
  "ProvisionedNetwork_ParentLaforgeID
     (zero_provisionedNetwork\<lparr>ProvisionedNetwork_ID := ''/envs/ctf/b1/teams/t1/networks/dmz''\<rparr>)
     = ''/envs/ctf/b1/teams/t1''
   \<and> TypeByPath ''/envs/ctf/b1/teams/t1/networks/dmz'' = Returns LFTypeProvisionedNetwork
   \<and> TypeByPath ''/envs/ctf/b1/teams/t1'' = Returns LFTypeTeam
   \<and> TypeByPath ''/envs/ctf/b1'' = Returns LFTypeBuild
   \<and> ProvisioningStep_ParentLaforgeID
     (zero_provisioningStep\<lparr>ProvisioningStep_ID := ''/envs/ctf/b1/teams/t1/networks/dmz/hosts/web01/steps/0-setup''\<rparr>)
     = ''/envs/ctf/b1/teams/t1/networks/dmz/hosts/web01''
   \<and> TypeByPath ''/envs/ctf/b1/teams/t1/networks/dmz/hosts/web01'' = Returns LFTypeProvisionedHost"
proof -
  have 1: "path_Dir (path_Dir ''/envs/ctf/b1/teams/t1/networks/dmz'') = ''/envs/ctf/b1/teams/t1''"
    by code_simp
  have 2: "TypeByPath ''/envs/ctf/b1/teams/t1/networks/dmz'' = Returns LFTypeProvisionedNetwork"
    by code_simp
  have 3: "TypeByPath ''/envs/ctf/b1/teams/t1'' = Returns LFTypeTeam" by code_simp
  have 4: "TypeByPath ''/envs/ctf/b1'' = Returns LFTypeBuild" by code_simp
  have 5: "path_Dir (path_Dir ''/envs/ctf/b1/teams/t1/networks/dmz/hosts/web01/steps/0-setup'')
           = ''/envs/ctf/b1/teams/t1/networks/dmz/hosts/web01''"
    by code_simp
  have 6: "TypeByPath ''/envs/ctf/b1/teams/t1/networks/dmz/hosts/web01'' = Returns LFTypeProvisionedHost"
    by code_simp
  from 1 2 3 4 5 6 show ?thesis
    by (simp add: ProvisionedNetwork_ParentLaforgeID_def ProvisionedNetwork_LaforgeID_def
        ProvisioningStep_ParentLaforgeID_def ProvisioningStep_LaforgeID_def)
qed

subsection \<open>SetID\<close>

lemma ProvisionedNetwork_SetID_nonempty:
  assumes "ProvisionedNetwork_ID p \<noteq> []"
  shows "ProvisionedNetwork_SetID x p =
     (if ProvisionedNetwork_NetworkID p = [] then
        (case ProvisionedNetwork_Network p of
           None \<Rightarrow> Panics
         | Some n \<Rightarrow> Returns (ProvisionedNetwork_ID p, p\<lparr>ProvisionedNetwork_NetworkID := Network_Path n\<rparr>))
      else Returns (ProvisionedNetwork_ID p, p))"
proof (cases "ProvisionedNetwork_Network p")
  case None
  with assms show ?thesis by (simp add: ProvisionedNetwork_SetID_def)
next
  case (Some n)
  with assms show ?thesis by (simp add: ProvisionedNetwork_SetID_def)
qed

lemma ProvisionedNetwork_SetID_empty:
  assumes "ProvisionedNetwork_ID p = []"
  shows "ProvisionedNetwork_SetID x p =
     obind (Team_Path x (ProvisionedNetwork_Team p)) (\<lambda>teampath.
       case ProvisionedNetwork_Network p of
         None \<Rightarrow> Panics
       | Some n \<Rightarrow> ProvisionedNetwork_SetID x
           (p\<lparr>ProvisionedNetwork_ID := path_Join [teampath, ''networks'', Network_Base n]\<rparr>))"
proof (cases "Team_Path x (ProvisionedNetwork_Team p)")
  case Panics
  with assms show ?thesis by (simp add: ProvisionedNetwork_SetID_def)
next
  case (Returns tp)
  show ?thesis
  proof (cases "ProvisionedNetwork_Network p")
    case None
    with assms Returns show ?thesis by (simp add: ProvisionedNetwork_SetID_def)
  next
    case (Some n)
    define j where "j = path_Join [tp, ''networks'', Network_Base n]"
    have ne: "j \<noteq> []"
      unfolding j_def by (rule path_Join3_nonempty) simp
    let ?p1 = "p\<lparr>ProvisionedNetwork_ID := j\<rparr>"
    have n1: "ProvisionedNetwork_ID ?p1 \<noteq> []" using ne by simp
    have l: "ProvisionedNetwork_SetID x p =
      (if ProvisionedNetwork_NetworkID p = []
       then Returns (j, p\<lparr>ProvisionedNetwork_ID := j, ProvisionedNetwork_NetworkID := Network_Path n\<rparr>)
       else Returns (j, ?p1))"
      using assms Returns Some
      by (simp add: ProvisionedNetwork_SetID_def j_def del: path_Join.simps)
    have r: "ProvisionedNetwork_SetID x ?p1 =
      (if ProvisionedNetwork_NetworkID p = []
       then Returns (j, p\<lparr>ProvisionedNetwork_ID := j, ProvisionedNetwork_NetworkID := Network_Path n\<rparr>)
       else Returns (j, ?p1))"
      unfolding ProvisionedNetwork_SetID_nonempty [OF n1] using Some by simp
    from l r Returns Some show ?thesis
      unfolding j_def by (simp del: path_Join.simps)
  qed
qed

lemma ProvisionedNetwork_SetID_result:
  assumes "ProvisionedNetwork_SetID x p = Returns (i, p')"
  shows "i = ProvisionedNetwork_ID p'" and "i \<noteq> []"
    and "ProvisionedNetwork_ID p \<noteq> [] \<longrightarrow> i = ProvisionedNetwork_ID p"
    and "ProvisionedNetwork_NetworkID p' = [] \<longrightarrow>
           (\<exists>n. ProvisionedNetwork_Network p' = Some n \<and> Network_Path n = [])"
proof -
  have key: "i = ProvisionedNetwork_ID p' \<and> i \<noteq> [] \<and> i = ProvisionedNetwork_ID q
      \<and> (ProvisionedNetwork_NetworkID p' = [] \<longrightarrow>
           (\<exists>n. ProvisionedNetwork_Network p' = Some n \<and> Network_Path n = []))"
    if ne: "ProvisionedNetwork_ID q \<noteq> []" and r: "ProvisionedNetwork_SetID x q = Returns (i, p')"
    for q
  proof (cases "ProvisionedNetwork_NetworkID q = []")
    case False
    with ne r have "i = ProvisionedNetwork_ID q" and "p' = q"
      by (auto simp: ProvisionedNetwork_SetID_nonempty)
    with ne False show ?thesis by auto
  next
    case True
    with ne r obtain n where n: "ProvisionedNetwork_Network q = Some n"
      and i: "i = ProvisionedNetwork_ID q"
      and p': "p' = q\<lparr>ProvisionedNetwork_NetworkID := Network_Path n\<rparr>"
      by (cases "ProvisionedNetwork_Network q") (simp_all add: ProvisionedNetwork_SetID_nonempty)
    from n i p' ne show ?thesis by simp
  qed
  have all: "i = ProvisionedNetwork_ID p' \<and> i \<noteq> []
      \<and> (ProvisionedNetwork_ID p \<noteq> [] \<longrightarrow> i = ProvisionedNetwork_ID p)
      \<and> (ProvisionedNetwork_NetworkID p' = [] \<longrightarrow>
           (\<exists>n. ProvisionedNetwork_Network p' = Some n \<and> Network_Path n = []))"
  proof (cases "ProvisionedNetwork_ID p = []")
    case False
    from key [OF False assms] show ?thesis by blast
  next
    case True
    from assms obtain tp n where
      n: "ProvisionedNetwork_Network p = Some n"
      and r: "ProvisionedNetwork_SetID x
           (p\<lparr>ProvisionedNetwork_ID := path_Join [tp, ''networks'', Network_Base n]\<rparr>) = Returns (i, p')"
      unfolding ProvisionedNetwork_SetID_empty [OF True] obind_Returns_iff
      by (cases "ProvisionedNetwork_Network p") auto
    define j where "j = path_Join [tp, ''networks'', Network_Base n]"
    have ne: "ProvisionedNetwork_ID (p\<lparr>ProvisionedNetwork_ID := j\<rparr>) \<noteq> []"
      unfolding j_def using path_Join3_nonempty [of "''networks''" tp "Network_Base n"] by simp
    from key [OF ne] r True show ?thesis unfolding j_def by blast
  qed
  from all show "i = ProvisionedNetwork_ID p'" and "i \<noteq> []"
    and "ProvisionedNetwork_ID p \<noteq> [] \<longrightarrow> i = ProvisionedNetwork_ID p"
    and "ProvisionedNetwork_NetworkID p' = [] \<longrightarrow>
           (\<exists>n. ProvisionedNetwork_Network p' = Some n \<and> Network_Path n = [])"
    by blast+
qed

lemma ProvisionedNetwork_SetID_twice:
  assumes "ProvisionedNetwork_SetID x p = Returns (i, p')"
  shows "ProvisionedNetwork_SetID x p' = Returns (i, p')"
proof -
  note r = ProvisionedNetwork_SetID_result [OF assms]
  from r(1,2) have ne: "ProvisionedNetwork_ID p' \<noteq> []" by blast
  show ?thesis
  proof (cases "ProvisionedNetwork_NetworkID p' = []")
    case False
    with r(1) show ?thesis unfolding ProvisionedNetwork_SetID_nonempty [OF ne] by simp
  next
    case True
    with r(4) obtain n where n: "ProvisionedNetwork_Network p' = Some n" "Network_Path n = []"
      by blast
    have "p'\<lparr>ProvisionedNetwork_NetworkID := Network_Path n\<rparr> = p'"
      using True n(2) by simp
    with True n(1) r(1) show ?thesis unfolding ProvisionedNetwork_SetID_nonempty [OF ne] by simp
  qed
qed

lemma link_provisioner_ID: "ProvisioningStep_ID (link_provisioner q) = ProvisioningStep_ID q"
proof (cases "ProvisioningStep_Provisioner q")
  case None
  then show ?thesis by (simp add: link_provisioner_def)
next
  case (Some pv)
  then show ?thesis by (cases pv) (simp_all add: link_provisioner_def)
qed

lemma link_provisioner_idem: "link_provisioner (link_provisioner q) = link_provisioner q"
proof (cases "ProvisioningStep_Provisioner q")
  case None
  then show ?thesis by (simp add: link_provisioner_def)
next
  case (Some pv)
  then show ?thesis by (cases pv) (simp_all add: link_provisioner_def)
qed

lemma ProvisioningStep_SetID_nonempty:
  assumes "ProvisioningStep_ID s \<noteq> []"
  shows "ProvisioningStep_SetID x s = Returns (ProvisioningStep_ID s, link_provisioner s)"
  using assms by (simp add: ProvisioningStep_SetID_def Let_def link_provisioner_ID)

lemma ProvisioningStep_SetID_result:
  assumes "ProvisioningStep_SetID x s = Returns (j, s')"
  shows "j = ProvisioningStep_ID s'" and "j \<noteq> []" and "link_provisioner s' = s'"
    and "ProvisioningStep_ID s \<noteq> [] \<longrightarrow> j = ProvisioningStep_ID s"
proof -
  have all: "j = ProvisioningStep_ID s' \<and> j \<noteq> [] \<and> link_provisioner s' = s'
     \<and> (ProvisioningStep_ID s \<noteq> [] \<longrightarrow> j = ProvisioningStep_ID s)"
  proof (cases "ProvisioningStep_ID s = []")
    case False
    with assms show ?thesis
      by (auto simp: ProvisioningStep_SetID_nonempty link_provisioner_ID link_provisioner_idem)
  next
    case True
    from assms True obtain p1 where
      p1: "(obind (ProvisionedHost_Path x (ProvisioningStep_ProvisionedHost s)) (\<lambda>hostpath.
            case ProvisioningStep_Provisioner s of
              None \<Rightarrow> Panics
            | Some pv \<Rightarrow>
                obind (Provisioner_Base x pv) (\<lambda>base.
                  Returns (s\<lparr>ProvisioningStep_ID :=
                    path_Join [hostpath, ''steps'',
                               fmt_int (ProvisioningStep_StepNumber s) @ ''-'' @ base]\<rparr>)))) = Returns p1"
      and res: "j = ProvisioningStep_ID (link_provisioner p1)" "s' = link_provisioner p1"
      by (auto simp: ProvisioningStep_SetID_def obind_Returns_iff Let_def simp del: path_Join.simps)
    from p1 obtain hp pv base where
      "p1 = s\<lparr>ProvisioningStep_ID :=
          path_Join [hp, ''steps'', fmt_int (ProvisioningStep_StepNumber s) @ ''-'' @ base]\<rparr>"
      by (cases "ProvisioningStep_Provisioner s")
        (auto simp: obind_Returns_iff simp del: path_Join.simps)
    then have "ProvisioningStep_ID p1 \<noteq> []"
      using path_Join3_nonempty [of "''steps''" hp "fmt_int (ProvisioningStep_StepNumber s) @ ''-'' @ base"]
      by simp
    with res True show ?thesis
      by (simp add: link_provisioner_ID link_provisioner_idem)
  qed
  from all show "j = ProvisioningStep_ID s'" and "j \<noteq> []" and "link_provisioner s' = s'"
    and "ProvisioningStep_ID s \<noteq> [] \<longrightarrow> j = ProvisioningStep_ID s"
    by blast+
qed

lemma ProvisioningStep_SetID_twice:
  assumes "ProvisioningStep_SetID x s = Returns (j, s')"
  shows "ProvisioningStep_SetID x s' = Returns (j, s')"
proof -
  note f = ProvisioningStep_SetID_result [OF assms]
  from f(1,2) have ne: "ProvisioningStep_ID s' \<noteq> []" by blast
  show ?thesis unfolding ProvisioningStep_SetID_nonempty [OF ne] using f(1,3) by simp
qed

lemma Connection_SetID_nonempty:
  "Connection_ID c \<noteq> [] \<Longrightarrow> Connection_SetID x c = Returns (Connection_ID c, c)"
  by (simp add: Connection_SetID_def)

lemma Connection_SetID_twice:
  assumes "Connection_SetID x c = Returns (k, c')"
  shows "Connection_SetID x c' = Returns (k, c')"
proof (cases "Connection_ID c = []")
  case False
  with assms show ?thesis by (auto simp: Connection_SetID_nonempty)
next
  case True
  with assms obtain hid where c': "c' = c\<lparr>Connection_ID := path_Join [hid, ''conn'']\<rparr>"
    and k: "k = Connection_ID c'"
    by (auto simp: Connection_SetID_def obind_Returns_iff simp del: path_Join.simps)
  have "Connection_ID c' \<noteq> []"
    unfolding c' using path_Join2_nonempty [of "''conn''" hid] by simp
  with k show ?thesis by (simp add: Connection_SetID_nonempty)
qed

text \<open>
  Claim C5, as the code has it.  For each of the three kinds, \<open>SetID\<close> called on an object
  whose \<open>ID\<close> is not empty keeps the \<open>ID\<close> and returns it, and \<open>SetID\<close> called again right
  after a call that returned gives the same path and changes nothing any more.  For a
  \<open>Connection\<close> with an \<open>ID\<close> the call is a no-op.  For a \<open>ProvisionedNetwork\<close> with an \<open>ID\<close> it is
  a no-op when \<open>NetworkID\<close> is set as well; for a \<open>ProvisioningStep\<close> with an \<open>ID\<close> it returns
  the \<open>ID\<close> and the step with its provisioner stored in the field of its type.
\<close>

theorem SetID_idempotent:
  "(ProvisionedNetwork_SetID x p = Returns (i, p') \<longrightarrow>
       (ProvisionedNetwork_ID p \<noteq> [] \<longrightarrow> i = ProvisionedNetwork_ID p \<and> ProvisionedNetwork_ID p' = i)
       \<and> ProvisionedNetwork_SetID x p' = Returns (i, p'))
   \<and> (ProvisionedNetwork_ID p \<noteq> [] \<and> ProvisionedNetwork_NetworkID p \<noteq> [] \<longrightarrow>
       ProvisionedNetwork_SetID x p = Returns (ProvisionedNetwork_ID p, p))
   \<and> (ProvisioningStep_SetID x s = Returns (j, s') \<longrightarrow>
       (ProvisioningStep_ID s \<noteq> [] \<longrightarrow> j = ProvisioningStep_ID s \<and> ProvisioningStep_ID s' = j)
       \<and> ProvisioningStep_SetID x s' = Returns (j, s'))
   \<and> (ProvisioningStep_ID s \<noteq> [] \<longrightarrow>
       ProvisioningStep_SetID x s = Returns (ProvisioningStep_ID s, link_provisioner s))
   \<and> (Connection_SetID x c = Returns (k, c') \<longrightarrow> Connection_SetID x c' = Returns (k, c'))
   \<and> (Connection_ID c \<noteq> [] \<longrightarrow> Connection_SetID x c = Returns (Connection_ID c, c))"
proof -
  have a: "ProvisionedNetwork_SetID x p = Returns (i, p') \<longrightarrow>
       (ProvisionedNetwork_ID p \<noteq> [] \<longrightarrow> i = ProvisionedNetwork_ID p \<and> ProvisionedNetwork_ID p' = i)
       \<and> ProvisionedNetwork_SetID x p' = Returns (i, p')"
    using ProvisionedNetwork_SetID_result(1,3) [of x p i p'] ProvisionedNetwork_SetID_twice [of x p i p']
    by blast
  have b: "ProvisionedNetwork_ID p \<noteq> [] \<and> ProvisionedNetwork_NetworkID p \<noteq> [] \<longrightarrow>
       ProvisionedNetwork_SetID x p = Returns (ProvisionedNetwork_ID p, p)"
    by (simp add: ProvisionedNetwork_SetID_nonempty)
  have c: "ProvisioningStep_SetID x s = Returns (j, s') \<longrightarrow>
       (ProvisioningStep_ID s \<noteq> [] \<longrightarrow> j = ProvisioningStep_ID s \<and> ProvisioningStep_ID s' = j)
       \<and> ProvisioningStep_SetID x s' = Returns (j, s')"
    using ProvisioningStep_SetID_result(1,4) [of x s j s'] ProvisioningStep_SetID_twice [of x s j s']
    by blast
  have d: "ProvisioningStep_ID s \<noteq> [] \<longrightarrow>
       ProvisioningStep_SetID x s = Returns (ProvisioningStep_ID s, link_provisioner s)"
    by (simp add: ProvisioningStep_SetID_nonempty)
  have e: "Connection_SetID x c = Returns (k, c') \<longrightarrow> Connection_SetID x c' = Returns (k, c')"
    using Connection_SetID_twice [of x c k c'] by blast
  have f: "Connection_ID c \<noteq> [] \<longrightarrow> Connection_SetID x c = Returns (Connection_ID c, c)"
    by (simp add: Connection_SetID_nonempty)
  from a b c d e f show ?thesis by blast
qed

theorem SetID_idempotent_witness:
  "(let c = zero_connection\<lparr>Connection_ProvisionedHost := Some (ProvisionedHost 1)\<rparr>;
        c' = c\<lparr>Connection_ID := ''/envs/ctf/b1/teams/t1/networks/dmz/hosts/web01/conn''\<rparr>
    in Connection_SetID bare_ext c = Returns (Connection_ID c', c')
       \<and> Connection_ID c' \<noteq> []
       \<and> Connection_SetID bare_ext c' = Returns (Connection_ID c', c'))"
proof -
  define c where "c = zero_connection\<lparr>Connection_ProvisionedHost := Some (ProvisionedHost 1)\<rparr>"
  define c' where "c' = c\<lparr>Connection_ID := ''/envs/ctf/b1/teams/t1/networks/dmz/hosts/web01/conn''\<rparr>"
  have j: "path_Join [''/envs/ctf/b1/teams/t1/networks/dmz/hosts/web01'', ''conn'']
           = ''/envs/ctf/b1/teams/t1/networks/dmz/hosts/web01/conn''"
    by code_simp
  have first: "Connection_SetID bare_ext c = Returns (Connection_ID c', c')"
    using j by (simp add: Connection_SetID_def c_def c'_def zero_connection_def bare_ext_def
        del: path_Join.simps)
  have ne: "Connection_ID c' \<noteq> []" by (simp add: c'_def)
  from first SetID_idempotent [where x = bare_ext and c = c and k = "Connection_ID c'" and c' = c']
  have second: "Connection_SetID bare_ext c' = Returns (Connection_ID c', c')" by blast
  from first ne second show ?thesis
    unfolding Let_def c_def [symmetric] c'_def [symmetric] by blast
qed

text \<open>
  The claim as it was stated fails: with an \<open>ID\<close> already set, \<open>SetID\<close> is not a no-op for a
  \<open>ProvisionedNetwork\<close> whose \<open>NetworkID\<close> is still empty (the call fills it in), nor for a
  \<open>ProvisioningStep\<close> whose provisioner is not yet stored in the field of its type (the call
  stores it).
\<close>

theorem SetID_with_ID_changes_object:
  "(let p = zero_provisionedNetwork\<lparr>ProvisionedNetwork_ID := ''/envs/ctf/b1/teams/t1/networks/dmz'',
              ProvisionedNetwork_Network := Some (zero_network\<lparr>Network_ID := ''/networks/dmz''\<rparr>)\<rparr>;
        s = zero_provisioningStep\<lparr>ProvisioningStep_ID := ''/envs/ctf/b1/teams/t1/networks/dmz/hosts/web01/steps/0-setup'',
              ProvisioningStep_Provisioner := Some (PCommand (Some zero_command))\<rparr>
    in ProvisionedNetwork_SetID bare_ext p
         = Returns (ProvisionedNetwork_ID p, p\<lparr>ProvisionedNetwork_NetworkID := ''/networks/dmz''\<rparr>)
       \<and> p\<lparr>ProvisionedNetwork_NetworkID := ''/networks/dmz''\<rparr> \<noteq> p
       \<and> ProvisioningStep_SetID bare_ext s
         = Returns (ProvisioningStep_ID s, s\<lparr>ProvisioningStep_Command := Some zero_command\<rparr>)
       \<and> s\<lparr>ProvisioningStep_Command := Some zero_command\<rparr> \<noteq> s)"
proof -
  define p where "p = zero_provisionedNetwork\<lparr>ProvisionedNetwork_ID := ''/envs/ctf/b1/teams/t1/networks/dmz'',
              ProvisionedNetwork_Network := Some (zero_network\<lparr>Network_ID := ''/networks/dmz''\<rparr>)\<rparr>"
  define s where "s = zero_provisioningStep\<lparr>ProvisioningStep_ID := ''/envs/ctf/b1/teams/t1/networks/dmz/hosts/web01/steps/0-setup'',
              ProvisioningStep_Provisioner := Some (PCommand (Some zero_command))\<rparr>"
  have pid: "ProvisionedNetwork_ID p \<noteq> []" by (simp add: p_def)
  have pn: "ProvisionedNetwork_NetworkID p = []"
    "ProvisionedNetwork_Network p = Some (zero_network\<lparr>Network_ID := ''/networks/dmz''\<rparr>)"
    by (simp_all add: p_def zero_provisionedNetwork_def)
  have 1: "ProvisionedNetwork_SetID bare_ext p
         = Returns (ProvisionedNetwork_ID p, p\<lparr>ProvisionedNetwork_NetworkID := ''/networks/dmz''\<rparr>)"
    unfolding ProvisionedNetwork_SetID_nonempty [OF pid] using pn by (simp add: Network_Path_def)
  have 2: "p\<lparr>ProvisionedNetwork_NetworkID := ''/networks/dmz''\<rparr> \<noteq> p"
  proof
    assume "p\<lparr>ProvisionedNetwork_NetworkID := ''/networks/dmz''\<rparr> = p"
    then have "ProvisionedNetwork_NetworkID (p\<lparr>ProvisionedNetwork_NetworkID := ''/networks/dmz''\<rparr>)
        = ProvisionedNetwork_NetworkID p" by (rule arg_cong)
    with pn(1) show False by simp
  qed
  have sid: "ProvisioningStep_ID s \<noteq> []" by (simp add: s_def)
  have sp: "ProvisioningStep_Provisioner s = Some (PCommand (Some zero_command))"
    "ProvisioningStep_Command s = None"
    by (simp_all add: s_def zero_provisioningStep_def)
  have 3: "ProvisioningStep_SetID bare_ext s
         = Returns (ProvisioningStep_ID s, s\<lparr>ProvisioningStep_Command := Some zero_command\<rparr>)"
    unfolding ProvisioningStep_SetID_nonempty [OF sid] using sp(1) by (simp add: link_provisioner_def)
  have 4: "s\<lparr>ProvisioningStep_Command := Some zero_command\<rparr> \<noteq> s"
  proof
    assume "s\<lparr>ProvisioningStep_Command := Some zero_command\<rparr> = s"
    then have "ProvisioningStep_Command (s\<lparr>ProvisioningStep_Command := Some zero_command\<rparr>)
        = ProvisioningStep_Command s" by (rule arg_cong)
    with sp(2) show False by simp
  qed
  from 1 2 3 4 show ?thesis
    unfolding Let_def p_def [symmetric] s_def [symmetric] by blast
qed

subsection \<open>UploadExecuteAndDelete: the SSH branch\<close>

lemma upload_aborts_iff:
  "upload_aborts err \<longleftrightarrow> err \<noteq> None \<and> err \<noteq> Some (SSHExitError [] [] 1)"
proof (cases err)
  case None
  then show ?thesis by (simp add: upload_aborts_def)
next
  case (Some e)
  then show ?thesis by (cases e) (auto simp: upload_aborts_def)
qed

lemma UploadExecuteAndDelete_takes_SSH_branch:
  assumes "os_Stat w scriptsrc = None" and "os_Stat w logdir = None"
    and "NewRenderer w ''windows'' = None" and "NewRenderer w ''linux'' = None"
    and "NewRenderer w [] = None" and "\<not> Connection_IsWinRM c"
  shows "Connection_UploadExecuteAndDelete w c timeout scriptsrc tmpname logdir
    = (let filename = (if tmpname \<noteq> [] then tmpname else currfp_Base w scriptsrc);
           logprefix = currfp_Join w logdir (strings_Remove filename (currfp_Ext w filename))
       in UploadExecuteAndDelete_SSH w c timeout scriptsrc filename
            (logprefix @ ''.stdout.log'') (logprefix @ ''.stderr.log''))"
  using assms by (simp add: Connection_UploadExecuteAndDelete_def Let_def)

lemma SSH_after_upload_executes:
  assumes "Connection_ProvisionedHost c = Some ph" and "ProvisionedHost_Host w ph = Some h"
  shows "\<exists>r. SSH_after_upload w c timeout st1 finalpath stdoutfile stderrfile = Returns r
           \<and> take (Suc (length st1)) (run_steps r) = st1 @ [StepExecute finalpath]"
proof -
  obtain sent closed where e:
    "execute_step w (Connection_ExecuteCommandSSH w c) stdoutfile stderrfile finalpath = (sent, closed)"
    by (cases "execute_step w (Connection_ExecuteCommandSSH w c) stdoutfile stderrfile finalpath")
  show ?thesis
    using assms e
    by (cases "PerformInTimeout w timeout sent")
      (simp_all add: SSH_after_upload_def finish_def Let_def)
qed

text \<open>
  Claim C8, as the code has it.  In the SSH branch, let \<open>uerr\<close> be the error the bounded
  upload step hands back.  When \<open>uerr\<close> is of the tolerated class (an SSH exit error with no
  signal, no message and exit status 1) the workflow goes on exactly as after an upload
  without error; and then, when the connection's \<open>ProvisionedHost\<close> and its \<open>Host\<close> are set,
  the execute step is the next step started.  When \<open>uerr\<close> is any other error, the workflow
  leaves through \<^verbatim>\<open>return err\<close> with that error, and the upload is the only step it started.
\<close>

theorem SSH_upload_error_tolerance:
  assumes "finalpath = nixfp_Join w ''/root'' filename"
    and "uerr = SSH_upload_step w c timeout scriptsrc finalpath"
  shows "(uerr = Some (SSHExitError [] [] 1) \<or> uerr = None \<longrightarrow>
            UploadExecuteAndDelete_SSH w c timeout scriptsrc filename stdoutfile stderrfile
              = SSH_after_upload w c timeout [StepUpload scriptsrc finalpath] finalpath stdoutfile stderrfile)
    \<and> ((uerr = Some (SSHExitError [] [] 1) \<or> uerr = None)
          \<and> Connection_ProvisionedHost c = Some ph \<and> ProvisionedHost_Host w ph = Some h \<longrightarrow>
            (\<exists>r. UploadExecuteAndDelete_SSH w c timeout scriptsrc filename stdoutfile stderrfile = Returns r
               \<and> take 2 (run_steps r) = [StepUpload scriptsrc finalpath, StepExecute finalpath]))
    \<and> (uerr = Some e \<and> e \<noteq> SSHExitError [] [] 1 \<longrightarrow>
            (\<exists>r. UploadExecuteAndDelete_SSH w c timeout scriptsrc filename stdoutfile stderrfile = Returns r
               \<and> run_return r = Some e \<and> run_steps r = [StepUpload scriptsrc finalpath]))"
proof -
  have go: "UploadExecuteAndDelete_SSH w c timeout scriptsrc filename stdoutfile stderrfile
              = SSH_after_upload w c timeout [StepUpload scriptsrc finalpath] finalpath stdoutfile stderrfile"
    if "uerr = Some (SSHExitError [] [] 1) \<or> uerr = None"
  proof -
    from that have "\<not> upload_aborts uerr" by (auto simp: upload_aborts_iff)
    then show ?thesis
      using assms by (simp add: UploadExecuteAndDelete_SSH_def Let_def)
  qed
  have ex: "\<exists>r. UploadExecuteAndDelete_SSH w c timeout scriptsrc filename stdoutfile stderrfile = Returns r
               \<and> take 2 (run_steps r) = [StepUpload scriptsrc finalpath, StepExecute finalpath]"
    if "uerr = Some (SSHExitError [] [] 1) \<or> uerr = None"
      and "Connection_ProvisionedHost c = Some ph" and "ProvisionedHost_Host w ph = Some h"
    using go [OF that(1)]
      SSH_after_upload_executes [OF that(2,3), of timeout "[StepUpload scriptsrc finalpath]" finalpath
        stdoutfile stderrfile]
    by (simp add: numeral_2_eq_2)
  have ab: "\<exists>r. UploadExecuteAndDelete_SSH w c timeout scriptsrc filename stdoutfile stderrfile = Returns r
               \<and> run_return r = Some e \<and> run_steps r = [StepUpload scriptsrc finalpath]"
    if "uerr = Some e" and "e \<noteq> SSHExitError [] [] 1"
  proof -
    from that have "upload_aborts uerr" by (simp add: upload_aborts_iff)
    then show ?thesis
      using assms that(1) by (simp add: UploadExecuteAndDelete_SSH_def Let_def finish_def)
  qed
  from go ex ab show ?thesis by blast
qed


text \<open>
  The end-to-end scenario with the fake transport: the upload of \<^verbatim>\<open>setup.sh\<close> fails with the
  tolerated error and the script is executed and deleted; it fails with another error and
  the workflow leaves with that error after the upload.
\<close>

theorem SSH_upload_error_tolerance_witness:
  "(let c = zero_connection\<lparr>Connection_SSHAuthConfig := Some (SSHAuthConfig 1),
              Connection_ProvisionedHost := Some (ProvisionedHost 1)\<rparr>;
        benign = fake_world (Some (SSHExitError [] [] 1));
        refused = fake_world (Some (OtherError ''connection refused''))
    in SSH_upload_step benign c 30 ''/opt/scripts/setup.sh'' ''/root/setup.sh'' = Some (SSHExitError [] [] 1)
       \<and> (\<exists>r. UploadExecuteAndDelete_SSH benign c 30 ''/opt/scripts/setup.sh'' ''setup.sh''
                  ''/tmp/logs/setup.stdout.log'' ''/tmp/logs/setup.stderr.log'' = Returns r
             \<and> take 2 (run_steps r)
                 = [StepUpload ''/opt/scripts/setup.sh'' ''/root/setup.sh'', StepExecute ''/root/setup.sh''])
       \<and> SSH_upload_step refused c 30 ''/opt/scripts/setup.sh'' ''/root/setup.sh''
           = Some (OtherError ''connection refused'')
       \<and> (\<exists>r. UploadExecuteAndDelete_SSH refused c 30 ''/opt/scripts/setup.sh'' ''setup.sh''
                  ''/tmp/logs/setup.stdout.log'' ''/tmp/logs/setup.stderr.log'' = Returns r
             \<and> run_return r = Some (OtherError ''connection refused'')
             \<and> run_steps r = [StepUpload ''/opt/scripts/setup.sh'' ''/root/setup.sh'']))"
proof -
  define c where "c = zero_connection\<lparr>Connection_SSHAuthConfig := Some (SSHAuthConfig 1),
              Connection_ProvisionedHost := Some (ProvisionedHost 1)\<rparr>"
  define benign where "benign = fake_world (Some (SSHExitError [] [] 1))"
  define refused where "refused = fake_world (Some (OtherError ''connection refused''))"
  have j: "path_Join [''/root'', ''setup.sh''] = ''/root/setup.sh''" by code_simp
  have fp: "''/root/setup.sh'' = nixfp_Join (fake_world u) ''/root'' ''setup.sh''" for u
    using j by (simp add: fake_world_def del: path_Join.simps)
  have up: "SSH_upload_step (fake_world u) c 30 ''/opt/scripts/setup.sh'' ''/root/setup.sh'' = u" for u
    by (cases u) (simp_all add: SSH_upload_step_def Connection_UploadScriptSFTP_def orelse_def fake_world_def)
  have ph: "Connection_ProvisionedHost c = Some (ProvisionedHost 1)
      \<and> ProvisionedHost_Host (fake_world u) (ProvisionedHost 1) = Some (Host 0)" for u
    by (simp add: c_def fake_world_def)
  have ne: "OtherError ''connection refused'' \<noteq> SSHExitError [] [] 1" by simp
  note b = SSH_upload_error_tolerance [where w = benign and c = c and timeout = 30
      and scriptsrc = "''/opt/scripts/setup.sh''" and filename = "''setup.sh''"
      and finalpath = "''/root/setup.sh''" and uerr = "Some (SSHExitError [] [] 1)"
      and stdoutfile = "''/tmp/logs/setup.stdout.log''" and stderrfile = "''/tmp/logs/setup.stderr.log''"
      and ph = "ProvisionedHost 1" and h = "Host 0",
      OF fp [of "Some (SSHExitError [] [] 1)", folded benign_def]
         up [of "Some (SSHExitError [] [] 1)", folded benign_def, symmetric]]
  note r = SSH_upload_error_tolerance [where w = refused and c = c and timeout = 30
      and scriptsrc = "''/opt/scripts/setup.sh''" and filename = "''setup.sh''"
      and finalpath = "''/root/setup.sh''" and uerr = "Some (OtherError ''connection refused'')"
      and stdoutfile = "''/tmp/logs/setup.stdout.log''" and stderrfile = "''/tmp/logs/setup.stderr.log''"
      and e = "OtherError ''connection refused''",
      OF fp [of "Some (OtherError ''connection refused'')", folded refused_def]
         up [of "Some (OtherError ''connection refused'')", folded refused_def, symmetric]]
  from b ph [of "Some (SSHExitError [] [] 1)", folded benign_def]
  have 1: "\<exists>r. UploadExecuteAndDelete_SSH benign c 30 ''/opt/scripts/setup.sh'' ''setup.sh''
                  ''/tmp/logs/setup.stdout.log'' ''/tmp/logs/setup.stderr.log'' = Returns r
             \<and> take 2 (run_steps r)
                 = [StepUpload ''/opt/scripts/setup.sh'' ''/root/setup.sh'', StepExecute ''/root/setup.sh'']"
    by blast
  from r ne
  have 2: "\<exists>r. UploadExecuteAndDelete_SSH refused c 30 ''/opt/scripts/setup.sh'' ''setup.sh''
                  ''/tmp/logs/setup.stdout.log'' ''/tmp/logs/setup.stderr.log'' = Returns r
             \<and> run_return r = Some (OtherError ''connection refused'')
             \<and> run_steps r = [StepUpload ''/opt/scripts/setup.sh'' ''/root/setup.sh'']"
    by blast
  from 1 2 up [of "Some (SSHExitError [] [] 1)", folded benign_def]
    up [of "Some (OtherError ''connection refused'')", folded refused_def]
  show ?thesis
    unfolding Let_def c_def [symmetric] benign_def [symmetric] refused_def [symmetric] by blast
qed

text \<open>
  The claim as it was stated fails: with the tolerated upload error and a connection whose
  \<open>ProvisionedHost\<close> is nil, the whole workflow (script \<^verbatim>\<open>/opt/scripts/setup.sh\<close>, log directory
  \<^verbatim>\<open>/tmp/logs\<close>) stops at the guard after the upload and never starts the execute step.
\<close>

theorem tolerated_upload_error_stops_at_nil_host:
  "Connection_UploadExecuteAndDelete (fake_world (Some (SSHExitError [] [] 1)))
     (zero_connection\<lparr>Connection_SSHAuthConfig := Some (SSHAuthConfig 1)\<rparr>)
     30 ''/opt/scripts/setup.sh'' [] ''/tmp/logs''
   = Returns \<lparr>run_steps = [StepUpload ''/opt/scripts/setup.sh'' ''/root/setup.sh''],
              run_return = Some (ErrorsNew ''provisioned host was nil''),
              run_joined = False\<rparr>"
proof -
  have j: "path_Join [''/root'', ''setup.sh''] = ''/root/setup.sh''" by code_simp
  have b: "path_Base ''/opt/scripts/setup.sh'' = ''setup.sh''" by code_simp
  show ?thesis
    using j b
    by (simp add: Connection_UploadExecuteAndDelete_def UploadExecuteAndDelete_SSH_def
        SSH_upload_step_def SSH_after_upload_def Connection_UploadScriptSFTP_def orelse_def
        upload_aborts_def finish_def Connection_IsWinRM_def zero_connection_def fake_world_def
        Let_def del: path_Join.simps)
qed


text \<open>
  On the way out after a refused upload the pipe writers are still open: the deferred
  function waits for goroutines that cannot finish, so the error does not reach the caller.
\<close>

lemma SSH_abort_is_not_joined:
  assumes "upload_aborts (SSH_upload_step w c timeout scriptsrc (nixfp_Join w ''/root'' filename))"
  shows "\<exists>r. UploadExecuteAndDelete_SSH w c timeout scriptsrc filename stdoutfile stderrfile = Returns r
           \<and> \<not> run_joined r"
  using assms by (simp add: UploadExecuteAndDelete_SSH_def Let_def finish_def)

end
